theory Spec2Isabelle
  imports Complex_Main
begin

section \<open>Values, errors and tables\<close>

text \<open>
  The endpoints of \<^verbatim>\<open>hrms/api/__init__.py\<close> read rows of the framework's tables and
  return dictionaries. A nullable text column is a \<open>string option\<close> (\<open>None\<close> is SQL
  NULL and Python \<open>None\<close>), a table is the list of its rows, and an exception is the
  left summand of the result.
\<close>

datatype error =
    DoesNotExistError
  | AttributeError
  | ValueError
  | BinasciiError
  | DatabaseError
  | ValidationError string

text \<open>Python truthiness of a value that is \<open>None\<close> or a \<open>str\<close>.\<close>

definition truthy :: "string option \<Rightarrow> bool" where
  "truthy v = (case v of None \<Rightarrow> False | Some s \<Rightarrow> s \<noteq> [])"

record Employee =
  emp_name :: string
  emp_leave_approver :: "string option"
  emp_expense_approver :: "string option"
  emp_department :: "string option"

record Department =
  dept_name :: string
  dept_lft :: int
  dept_rgt :: int
  dept_disabled :: int

record Department_Approver =
  da_parent :: string
  da_parentfield :: string
  da_idx :: int
  da_approver :: string

record User =
  user_name :: string
  user_full_name :: "string option"

record HR_Settings =
  leave_approver_mandatory_in_leave_application :: int
  expense_approver_mandatory_in_expense_claim :: int

record db =
  tabEmployee :: "Employee list"
  tabDepartment :: "Department list"
  tabDepartment_Approver :: "Department_Approver list"
  tabUser :: "User list"
  tabHR_Settings :: HR_Settings

section \<open>Approver resolution\<close>

text \<open>One row of the join in \<^verbatim>\<open>get_department_approvers\<close>: \<open>{name, full_name}\<close>.\<close>

record approver_row =
  ar_name :: string
  ar_full_name :: "string option"

text \<open>
  \<^verbatim>\<open>frappe.get_cached_value("Employee", employee, [...])\<close> loads the document and
  raises when there is none.
\<close>

definition get_cached_Employee :: "db \<Rightarrow> string \<Rightarrow> error + Employee" where
  "get_cached_Employee d employee =
     (case find (\<lambda>e. emp_name e = employee) (tabEmployee d) of
        None \<Rightarrow> Inl DoesNotExistError
      | Some e \<Rightarrow> Inr e)"

text \<open>
  \<^verbatim>\<open>frappe.db.get_value("Department Approver", {"parent": department,
  "parentfield": parentfield, "idx": 1}, "approver")\<close>: the column of the first row that
  matches, \<open>None\<close> when no row does.
\<close>

definition get_value_Department_Approver ::
  "db \<Rightarrow> string \<Rightarrow> string \<Rightarrow> int \<Rightarrow> string option" where
  "get_value_Department_Approver d department parentfield i =
     (case find (\<lambda>a. da_parent a = department \<and> da_parentfield a = parentfield \<and> da_idx a = i)
                (tabDepartment_Approver d) of
        None \<Rightarrow> None
      | Some a \<Rightarrow> Some (da_approver a))"

text \<open>
  \<^verbatim>\<open>frappe.db.get_value("User", approver, "full_name", cache=True)\<close>: \<open>None\<close> when the
  key is \<open>None\<close> or names no user.
\<close>

definition get_value_User_full_name :: "db \<Rightarrow> string option \<Rightarrow> string option" where
  "get_value_User_full_name d key =
     (case key of
        None \<Rightarrow> None
      | Some k \<Rightarrow>
          (case find (\<lambda>u. user_name u = k) (tabUser d) of
             None \<Rightarrow> None
           | Some u \<Rightarrow> user_full_name u))"

text \<open>
  \<^verbatim>\<open>frappe.db.get_value("Department", department, ["lft", "rgt"], as_dict=True)\<close>:
  the row of that name, \<open>None\<close> when there is none.
\<close>

definition get_value_Department :: "db \<Rightarrow> string \<Rightarrow> Department option" where
  "get_value_Department d department = find (\<lambda>x. dept_name x = department) (tabDepartment d)"

text \<open>
  The \<^verbatim>\<open>frappe.get_all("Department", filters={"lft": ("<=", department_details.lft),
  "rgt": (">=", department_details.rgt), "disabled": 0}, pluck="name")\<close> of
  \<^verbatim>\<open>get_department_approvers\<close>, the local \<^verbatim>\<open>departments\<close>.
\<close>

definition departments :: "db \<Rightarrow> Department \<Rightarrow> string list" where
  "departments d department_details =
     map dept_name
       (filter (\<lambda>x. dept_lft x \<le> dept_lft department_details
                    \<and> dept_rgt x \<ge> dept_rgt department_details
                    \<and> dept_disabled x = 0)
          (tabDepartment d))"

text \<open>
  The join of \<^verbatim>\<open>User\<close> with \<^verbatim>\<open>Department Approver\<close> on
  \<^verbatim>\<open>Approver.approver == User.name\<close>, restricted to the given parents and
  parentfield: one row for each matching pair. The query has no \<^verbatim>\<open>ORDER BY\<close>; the
  rows are listed here user by user in table order.
\<close>

definition join_User_Approver :: "db \<Rightarrow> string list \<Rightarrow> string \<Rightarrow> approver_row list" where
  "join_User_Approver d parents parentfield =
     concat (map (\<lambda>u.
        map (\<lambda>a. \<lparr>ar_name = user_name u, ar_full_name = user_full_name u\<rparr>)
          (filter (\<lambda>a. da_approver a = user_name u
                       \<and> da_parent a \<in> set parents
                       \<and> da_parentfield a = parentfield)
             (tabDepartment_Approver d)))
        (tabUser d))"

text \<open>
  \<^verbatim>\<open>get_department_approvers(department, parentfield)\<close>. Reading \<^verbatim>\<open>.lft\<close> of the
  \<open>None\<close> that a missing department gives raises \<open>AttributeError\<close>. When no
  department is selected, \<^verbatim>\<open>Approver.parent.isin(departments)\<close> is the SQL
  \<^verbatim>\<open>IN ()\<close>, which the database refuses.
\<close>

definition get_department_approvers ::
  "db \<Rightarrow> string option \<Rightarrow> string \<Rightarrow> error + approver_row list" where
  "get_department_approvers d department parentfield =
     (case department of
        None \<Rightarrow> Inr []
      | Some dep \<Rightarrow>
          if dep = [] then Inr []
          else
            (case get_value_Department d dep of
               None \<Rightarrow> Inl AttributeError
             | Some department_details \<Rightarrow>
                 if departments d department_details = [] then Inl DatabaseError
                 else Inr (join_User_Approver d (departments d department_details)
                             parentfield)))"

text \<open>
  The \<^verbatim>\<open>if approver and approver not in [a.name for a in department_approvers]:
  department_approvers.append({...})\<close> that both endpoints end with.
\<close>

definition append_primary ::
  "string option \<Rightarrow> string option \<Rightarrow> approver_row list \<Rightarrow> approver_row list" where
  "append_primary approver approver_name department_approvers =
     (case approver of
        None \<Rightarrow> department_approvers
      | Some a \<Rightarrow>
          if a \<noteq> [] \<and> a \<notin> set (map ar_name department_approvers)
          then department_approvers @ [\<lparr>ar_name = a, ar_full_name = approver_name\<rparr>]
          else department_approvers)"

record leave_approval_details =
  leave_approver :: "string option"
  leave_approver_name :: "string option"
  leave_department_approvers :: "approver_row list"
  leave_is_mandatory :: int

definition get_leave_approval_details :: "db \<Rightarrow> string \<Rightarrow> error + leave_approval_details" where
  "get_leave_approval_details d employee =
     (case get_cached_Employee d employee of
        Inl err \<Rightarrow> Inl err
      | Inr e \<Rightarrow>
          let department = emp_department e;
              approver =
                (case department of
                   None \<Rightarrow> emp_leave_approver e
                 | Some dep \<Rightarrow>
                     if \<not> truthy (emp_leave_approver e) \<and> dep \<noteq> []
                     then get_value_Department_Approver d dep ''leave_approvers'' 1
                     else emp_leave_approver e);
              approver_name = get_value_User_full_name d approver
          in (case get_department_approvers d department ''leave_approvers'' of
               Inl err \<Rightarrow> Inl err
             | Inr department_approvers \<Rightarrow>
                 Inr \<lparr>leave_approver = approver,
                      leave_approver_name = approver_name,
                      leave_department_approvers =
                        append_primary approver approver_name department_approvers,
                      leave_is_mandatory =
                        leave_approver_mandatory_in_leave_application (tabHR_Settings d)\<rparr>))"

record expense_approval_details =
  expense_approver :: "string option"
  expense_approver_name :: "string option"
  expense_department_approvers :: "approver_row list"
  expense_is_mandatory :: int

definition get_expense_approval_details ::
  "db \<Rightarrow> string \<Rightarrow> error + expense_approval_details" where
  "get_expense_approval_details d employee =
     (case get_cached_Employee d employee of
        Inl err \<Rightarrow> Inl err
      | Inr e \<Rightarrow>
          let department = emp_department e;
              approver =
                (case department of
                   None \<Rightarrow> emp_expense_approver e
                 | Some dep \<Rightarrow>
                     if \<not> truthy (emp_expense_approver e) \<and> dep \<noteq> []
                     then get_value_Department_Approver d dep ''expense_approvers'' 1
                     else emp_expense_approver e);
              approver_name = get_value_User_full_name d approver
          in (case get_department_approvers d department ''expense_approvers'' of
               Inl err \<Rightarrow> Inl err
             | Inr department_approvers \<Rightarrow>
                 Inr \<lparr>expense_approver = approver,
                      expense_approver_name = approver_name,
                      expense_department_approvers =
                        append_primary approver approver_name department_approvers,
                      expense_is_mandatory =
                        expense_approver_mandatory_in_expense_claim (tabHR_Settings d)\<rparr>))"

section \<open>Leave applications\<close>

record Leave_Application =
  la_name :: string
  la_employee :: string
  la_employee_name :: string
  la_leave_type :: string
  la_status :: string
  la_from_date :: int
  la_to_date :: int
  la_half_day :: int
  la_half_day_date :: "int option"
  la_description :: "string option"
  la_total_leave_days :: rat
  la_leave_balance :: rat
  la_leave_approver :: "string option"
  la_posting_date :: int
  la_docstatus :: int

text \<open>
  What the endpoints take from the framework's session and permission model:
  \<^verbatim>\<open>frappe.session.user\<close>, \<^verbatim>\<open>frappe.has_permission(doctype, ptype, doc=None, user=None)\<close>
  (\<open>doc = None\<close> asks about the doctype as a whole, \<open>doc = Some l\<close> about that
  document), and the rows that \<^verbatim>\<open>frappe.get_list\<close> lets the session read.
\<close>

record frappe =
  session_user :: string
  has_permission :: "string \<Rightarrow> string \<Rightarrow> Leave_Application option \<Rightarrow> string \<Rightarrow> bool"
  get_list_permitted :: "Leave_Application \<Rightarrow> bool"

text \<open>A listed leave application: the selected fields and the two attached flags.\<close>

record leave_row =
  lr_fields :: Leave_Application
  can_cancel :: bool
  can_delete :: bool

text \<open>
  \<^verbatim>\<open>frappe.get_list("Leave Application", fields=[...], filters=filters,
  order_by="from_date desc")\<close>; the filters dictionary is the predicate it denotes.
\<close>

definition get_list_Leave_Application ::
  "frappe \<Rightarrow> Leave_Application list \<Rightarrow> (Leave_Application \<Rightarrow> bool) \<Rightarrow> Leave_Application list" where
  "get_list_Leave_Application f tabLeave_Application filters =
     sort_key (\<lambda>l. - la_from_date l)
       (filter (\<lambda>l. filters l \<and> get_list_permitted f l) tabLeave_Application)"

definition get_leave_applications ::
  "frappe \<Rightarrow> Leave_Application list \<Rightarrow> (Leave_Application \<Rightarrow> bool) \<Rightarrow> leave_row list" where
  "get_leave_applications f tabLeave_Application filters =
     map (\<lambda>leave.
            \<lparr>lr_fields = leave,
             can_cancel = has_permission f ''Leave Application'' ''cancel'' None (session_user f),
             can_delete = has_permission f ''Leave Application'' ''delete'' None (session_user f)\<rparr>)
         (get_list_Leave_Application f tabLeave_Application filters)"

definition get_employee_leave_applications ::
  "frappe \<Rightarrow> Leave_Application list \<Rightarrow> string \<Rightarrow> leave_row list" where
  "get_employee_leave_applications f tabLeave_Application employee =
     get_leave_applications f tabLeave_Application
       (\<lambda>l. la_employee l = employee \<and> la_status l \<noteq> ''Cancelled'')"

definition get_team_leave_applications ::
  "frappe \<Rightarrow> Leave_Application list \<Rightarrow> string \<Rightarrow> string \<Rightarrow> leave_row list" where
  "get_team_leave_applications f tabLeave_Application employee user_id =
     get_leave_applications f tabLeave_Application
       (\<lambda>l. la_employee l \<noteq> employee \<and> la_leave_approver l = Some user_id
            \<and> la_status l = ''Open'' \<and> la_docstatus l = 0)"

section \<open>Expense claims\<close>

record Expense_Claim =
  ec_name :: string
  ec_employee :: string
  ec_employee_name :: string
  ec_approval_status :: string
  ec_status :: string
  ec_expense_approver :: "string option"
  ec_total_claimed_amount :: rat
  ec_total_sanctioned_amount :: rat
  ec_posting_date :: int
  ec_company :: "string option"
  ec_docstatus :: int

record Expense_Claim_Detail =
  ecd_parent :: string
  ecd_expense_type :: "string option"

record Company =
  company_name :: string
  company_default_currency :: "string option"

record Currency =
  currency_name :: string
  currency_symbol :: "string option"

record claims_db =
  tabExpense_Claim :: "Expense_Claim list"
  tabExpense_Claim_Detail :: "Expense_Claim_Detail list"
  tabCompany :: "Company list"
  tabCurrency :: "Currency list"

text \<open>One grouped row of \<^verbatim>\<open>get_expense_claims\<close>.\<close>

record claim_row =
  cr_name :: string
  cr_employee :: string
  cr_employee_name :: string
  cr_approval_status :: string
  cr_status :: string
  cr_expense_approver :: "string option"
  cr_total_claimed_amount :: rat
  cr_posting_date :: int
  cr_company :: "string option"
  cr_expense_type :: "string option"
  cr_total_expenses :: nat

text \<open>
  The \<^verbatim>\<open>where\<close> of \<^verbatim>\<open>get_expense_claims\<close>, one branch for each value of
  \<^verbatim>\<open>for_approval\<close>. An SQL equality with NULL holds for no row, so
  \<^verbatim>\<open>Claim.expense_approver == approver_id\<close> selects nothing when \<^verbatim>\<open>approver_id\<close> is
  \<open>None\<close>.
\<close>

definition claim_where :: "string \<Rightarrow> string option \<Rightarrow> bool \<Rightarrow> Expense_Claim \<Rightarrow> bool" where
  "claim_where employee approver_id for_approval c =
     (if for_approval
      then ec_docstatus c = 0 \<and> ec_status c = ''Draft''
           \<and> approver_id \<noteq> None \<and> ec_expense_approver c = approver_id
           \<and> ec_employee c \<noteq> employee
      else ec_docstatus c \<noteq> 2 \<and> ec_employee c = employee)"

text \<open>
  The inner join of \<^verbatim>\<open>Claim\<close> with \<^verbatim>\<open>ClaimDetail\<close> on
  \<^verbatim>\<open>Claim.name == ClaimDetail.parent\<close>, restricted by the \<^verbatim>\<open>where\<close>.
\<close>

definition claim_join ::
  "claims_db \<Rightarrow> (Expense_Claim \<Rightarrow> bool) \<Rightarrow> (Expense_Claim \<times> Expense_Claim_Detail) list" where
  "claim_join cd cond =
     concat (map (\<lambda>c. map (\<lambda>x. (c, x))
                         (filter (\<lambda>x. ecd_parent x = ec_name c) (tabExpense_Claim_Detail cd)))
                 (filter cond (tabExpense_Claim cd)))"

text \<open>
  \<^verbatim>\<open>groupby(Claim.name)\<close>: one row for each claim name of the join, the plain columns
  from the group's first row, \<^verbatim>\<open>Count(ClaimDetail.expense_type)\<close> the number of its rows
  whose expense type is not NULL.
\<close>

definition claim_group ::
  "(Expense_Claim \<times> Expense_Claim_Detail) list \<Rightarrow> string \<Rightarrow> claim_row list" where
  "claim_group joined n =
     (case filter (\<lambda>(c, x). ec_name c = n) joined of
        [] \<Rightarrow> []
      | (c, x) # rest \<Rightarrow>
          [\<lparr>cr_name = ec_name c,
            cr_employee = ec_employee c,
            cr_employee_name = ec_employee_name c,
            cr_approval_status = ec_approval_status c,
            cr_status = ec_status c,
            cr_expense_approver = ec_expense_approver c,
            cr_total_claimed_amount = ec_total_claimed_amount c,
            cr_posting_date = ec_posting_date c,
            cr_company = ec_company c,
            cr_expense_type = ecd_expense_type x,
            cr_total_expenses =
              length (filter (\<lambda>(c', x'). ecd_expense_type x' \<noteq> None) ((c, x) # rest))\<rparr>])"

text \<open>
  The query of \<^verbatim>\<open>get_expense_claims\<close> without a \<^verbatim>\<open>LIMIT\<close>: grouped, then ordered
  by posting date, latest first.
\<close>

definition matching_claims ::
  "claims_db \<Rightarrow> string \<Rightarrow> string option \<Rightarrow> bool \<Rightarrow> claim_row list" where
  "matching_claims cd employee approver_id for_approval =
     (let joined = claim_join cd (claim_where employee approver_id for_approval)
      in sort_key (\<lambda>r. - cr_posting_date r)
           (concat (map (claim_group joined) (remdups (map (\<lambda>(c, x). ec_name c) joined)))))"

text \<open>
  \<^verbatim>\<open>get_expense_claims(employee, approver_id=None, for_approval=False, limit=None)\<close>.
  \<^verbatim>\<open>if limit: query = query.limit(limit)\<close> adds the \<^verbatim>\<open>LIMIT\<close> for a truthy limit only;
  the database refuses a negative one.
\<close>

definition get_expense_claims ::
  "claims_db \<Rightarrow> string \<Rightarrow> string option \<Rightarrow> bool \<Rightarrow> int option \<Rightarrow> error + claim_row list" where
  "get_expense_claims cd employee approver_id for_approval limit =
     (let claims = matching_claims cd employee approver_id for_approval
      in (case limit of
            None \<Rightarrow> Inr claims
          | Some n \<Rightarrow>
              if n = 0 then Inr claims
              else if n < 0 then Inl DatabaseError
              else Inr (take (nat n) claims)))"

text \<open>The three \<^verbatim>\<open>Case().when(...).else_(0)\<close> terms of \<^verbatim>\<open>get_expense_claim_summary\<close>.\<close>

definition pending_claims_case :: "Expense_Claim \<Rightarrow> rat" where
  "pending_claims_case c =
     (if ec_approval_status c = ''Draft'' then ec_total_claimed_amount c else 0)"

definition approved_claims_case :: "Expense_Claim \<Rightarrow> rat" where
  "approved_claims_case c =
     (if ec_approval_status c = ''Approved'' then ec_total_sanctioned_amount c else 0)"

definition rejected_claims_case :: "Expense_Claim \<Rightarrow> rat" where
  "rejected_claims_case c =
     (if ec_approval_status c = ''Rejected'' then ec_total_sanctioned_amount c else 0)"

text \<open>SQL \<^verbatim>\<open>SUM\<close>: NULL over no rows.\<close>

definition Sum :: "rat list \<Rightarrow> rat option" where
  "Sum xs = (case xs of [] \<Rightarrow> None | _ # _ \<Rightarrow> Some (sum_list xs))"

definition get_value_Company_default_currency :: "claims_db \<Rightarrow> string option \<Rightarrow> string option" where
  "get_value_Company_default_currency cd key =
     (case key of
        None \<Rightarrow> None
      | Some k \<Rightarrow>
          (case find (\<lambda>x. company_name x = k) (tabCompany cd) of
             None \<Rightarrow> None
           | Some x \<Rightarrow> company_default_currency x))"

definition get_value_Currency_symbol :: "claims_db \<Rightarrow> string option \<Rightarrow> string option" where
  "get_value_Currency_symbol cd key =
     (case key of
        None \<Rightarrow> None
      | Some k \<Rightarrow>
          (case find (\<lambda>x. currency_name x = k) (tabCurrency cd) of
             None \<Rightarrow> None
           | Some x \<Rightarrow> currency_symbol x))"

record claim_summary =
  total_pending_amount :: "rat option"
  total_approved_amount :: "rat option"
  total_rejected_amount :: "rat option"
  summary_company :: "string option"
  summary_currency :: "string option"

text \<open>
  \<^verbatim>\<open>get_expense_claim_summary(employee)\<close>. An aggregate query without
  \<^verbatim>\<open>GROUP BY\<close> gives exactly one row, so \<^verbatim>\<open>[0]\<close> never fails; the plain column
  \<^verbatim>\<open>Claim.company\<close> is that of the first selected row, NULL when there is none.
\<close>

definition get_expense_claim_summary :: "claims_db \<Rightarrow> string \<Rightarrow> claim_summary" where
  "get_expense_claim_summary cd employee =
     (let rows = filter (\<lambda>c. ec_docstatus c \<noteq> 2 \<and> ec_employee c = employee)
                   (tabExpense_Claim cd);
          company = (case rows of [] \<Rightarrow> None | c # _ \<Rightarrow> ec_company c);
          currency = get_value_Company_default_currency cd company;
          symbol = get_value_Currency_symbol cd currency
      in \<lparr>total_pending_amount = Sum (map pending_claims_case rows),
          total_approved_amount = Sum (map approved_claims_case rows),
          total_rejected_amount = Sum (map rejected_claims_case rows),
          summary_company = company,
          summary_currency = (if truthy symbol then symbol else currency)\<rparr>)"

section \<open>File upload\<close>

text \<open>
  \<^verbatim>\<open>binascii.a2b_base64\<close> in its default, non-strict mode, as \<^verbatim>\<open>base64.b64decode\<close>
  calls it: the value of a character of the alphabet, \<open>None\<close> for any other.
\<close>

definition table_a2b_base64 :: "char \<Rightarrow> nat option" where
  "table_a2b_base64 c =
     (let n = (of_char c :: nat)
      in if 65 \<le> n \<and> n \<le> 90 then Some (n - 65)
         else if 97 \<le> n \<and> n \<le> 122 then Some (n - 71)
         else if 48 \<le> n \<and> n \<le> 57 then Some (n + 4)
         else if n = 43 then Some 62
         else if n = 47 then Some 63
         else None)"

text \<open>
  The decoding loop over the input, with its state \<^verbatim>\<open>quad_pos\<close>, \<^verbatim>\<open>leftchar\<close>,
  \<^verbatim>\<open>pads\<close> and the bytes written so far. Characters outside the alphabet are
  skipped; a pad that completes a quad ends the decoding; input that ends inside a quad
  raises \<^verbatim>\<open>binascii.Error\<close>.
\<close>

fun a2b_base64 :: "string \<Rightarrow> nat \<Rightarrow> nat \<Rightarrow> nat \<Rightarrow> nat list \<Rightarrow> error + nat list" where
  "a2b_base64 [] quad_pos leftchar pads out =
     (if quad_pos \<noteq> 0 then Inl BinasciiError else Inr out)"
| "a2b_base64 (c # cs) quad_pos leftchar pads out =
     (if c = CHR ''='' then
        (if quad_pos \<ge> 2 \<and> quad_pos + (pads + 1) \<ge> 4 then Inr out
         else a2b_base64 cs quad_pos leftchar (if quad_pos \<ge> 2 then pads + 1 else pads) out)
      else
        (case table_a2b_base64 c of
           None \<Rightarrow> a2b_base64 cs quad_pos leftchar pads out
         | Some this_ch \<Rightarrow>
             if quad_pos = 0 then a2b_base64 cs 1 this_ch 0 out
             else if quad_pos = 1 then
               a2b_base64 cs 2 (this_ch mod 16) 0
                 (out @ [(leftchar * 4 + this_ch div 16) mod 256])
             else if quad_pos = 2 then
               a2b_base64 cs 3 (this_ch mod 4) 0
                 (out @ [(leftchar * 16 + this_ch div 4) mod 256])
             else
               a2b_base64 cs 0 0 0 (out @ [(leftchar * 64 + this_ch) mod 256])))"

text \<open>
  \<^verbatim>\<open>base64.b64decode(content)\<close> of a \<^verbatim>\<open>str\<close>: \<^verbatim>\<open>ValueError\<close> for a character that
  is not ASCII, then the decoding above.
\<close>

definition b64decode :: "string \<Rightarrow> error + nat list" where
  "b64decode s =
     (if \<exists>c\<in>set s. (of_char c :: nat) \<ge> 128 then Inl ValueError
      else a2b_base64 s 0 0 0 [])"

record File =
  file_attached_to_doctype :: "string option"
  file_attached_to_name :: "string option"
  file_attached_to_field :: "string option"
  file_folder :: string
  file_file_name :: string
  file_content :: "nat list"
  file_is_private :: int

text \<open>
  \<^verbatim>\<open>upload_base64_file(content, filename, dt=None, dn=None, fieldname=None)\<close>. The
  type that \<^verbatim>\<open>mimetypes.guess_type(filename)[0]\<close> gives depends on the host's type
  maps, and \<^verbatim>\<open>ALLOWED_MIMETYPES\<close> is a constant of \<^verbatim>\<open>frappe.handler\<close>: both are
  parameters. The state is the table of File records; \<^verbatim>\<open>insert\<close> adds the new one.
\<close>

definition upload_base64_file ::
  "(string \<Rightarrow> string option) \<Rightarrow> string list \<Rightarrow> File list \<Rightarrow>
   string \<Rightarrow> string \<Rightarrow> string option \<Rightarrow> string option \<Rightarrow> string option \<Rightarrow>
   (error + File) \<times> File list" where
  "upload_base64_file guess_type ALLOWED_MIMETYPES tabFile content filename dt dn fieldname =
     (case b64decode content of
        Inl err \<Rightarrow> (Inl err, tabFile)
      | Inr decoded_content \<Rightarrow>
          let content_type = guess_type filename
          in if content_type \<notin> set (map Some ALLOWED_MIMETYPES)
             then (Inl (ValidationError
                     ''You can only upload JPG, PNG, PDF, TXT or Microsoft documents.''),
                   tabFile)
             else
               (let doc = \<lparr>file_attached_to_doctype = dt,
                           file_attached_to_name = dn,
                           file_attached_to_field = fieldname,
                           file_folder = ''Home'',
                           file_file_name = filename,
                           file_content = decoded_content,
                           file_is_private = 1\<rparr>
                in (Inr doc, tabFile @ [doc])))"

section \<open>Example data\<close>

text \<open>
  A small organisation: \<open>Sales\<close> (2, 7) lies inside \<open>HQ\<close> (1, 10), \<open>Legal\<close> (11, 12)
  beside it. \<open>head@x.io\<close> approves leave for both \<open>HQ\<close> and \<open>Sales\<close>.
\<close>

definition db_tree :: db where
  "db_tree =
     \<lparr>tabEmployee =
        [\<lparr>emp_name = ''EMP-1'', emp_leave_approver = None, emp_expense_approver = Some [],
          emp_department = Some ''Sales''\<rparr>,
         \<lparr>emp_name = ''EMP-2'', emp_leave_approver = Some ''boss@x.io'',
          emp_expense_approver = Some ''boss@x.io'', emp_department = None\<rparr>,
         \<lparr>emp_name = ''EMP-3'', emp_leave_approver = Some ''head@x.io'',
          emp_expense_approver = Some ''boss@x.io'', emp_department = Some ''Sales''\<rparr>,
         \<lparr>emp_name = ''EMP-4'', emp_leave_approver = None, emp_expense_approver = None,
          emp_department = Some []\<rparr>],
      tabDepartment =
        [\<lparr>dept_name = ''HQ'', dept_lft = 1, dept_rgt = 10, dept_disabled = 0\<rparr>,
         \<lparr>dept_name = ''Sales'', dept_lft = 2, dept_rgt = 7, dept_disabled = 0\<rparr>,
         \<lparr>dept_name = ''Legal'', dept_lft = 11, dept_rgt = 12, dept_disabled = 0\<rparr>],
      tabDepartment_Approver =
        [\<lparr>da_parent = ''Sales'', da_parentfield = ''leave_approvers'', da_idx = 1,
          da_approver = ''lead@x.io''\<rparr>,
         \<lparr>da_parent = ''Sales'', da_parentfield = ''leave_approvers'', da_idx = 2,
          da_approver = ''head@x.io''\<rparr>,
         \<lparr>da_parent = ''Sales'', da_parentfield = ''expense_approvers'', da_idx = 1,
          da_approver = ''lead@x.io''\<rparr>,
         \<lparr>da_parent = ''HQ'', da_parentfield = ''leave_approvers'', da_idx = 1,
          da_approver = ''head@x.io''\<rparr>,
         \<lparr>da_parent = ''Legal'', da_parentfield = ''leave_approvers'', da_idx = 1,
          da_approver = ''boss@x.io''\<rparr>],
      tabUser =
        [\<lparr>user_name = ''lead@x.io'', user_full_name = Some ''Lee Lead''\<rparr>,
         \<lparr>user_name = ''head@x.io'', user_full_name = Some ''Hana Head''\<rparr>,
         \<lparr>user_name = ''boss@x.io'', user_full_name = Some ''Bo Boss''\<rparr>],
      tabHR_Settings =
        \<lparr>leave_approver_mandatory_in_leave_application = 1,
         expense_approver_mandatory_in_expense_claim = 0\<rparr>\<rparr>"

text \<open>
  Three claims of one employee, one in each approval status; a fourth claim whose
  approval status is none of the three, a cancelled claim of the same employee and a
  claim of another employee; and three claims whose claimed amounts are 100, 200 and
  300 while only 150 of the approved one was sanctioned.
\<close>

definition claims_ex :: claims_db where
  "claims_ex =
     \<lparr>tabExpense_Claim =
        [\<lparr>ec_name = ''EXP-1'', ec_employee = ''EMP-1'', ec_employee_name = ''Ada'',
          ec_approval_status = ''Draft'', ec_status = ''Draft'',
          ec_expense_approver = Some ''lead@x.io'',
          ec_total_claimed_amount = 100, ec_total_sanctioned_amount = 0,
          ec_posting_date = 10, ec_company = Some ''X Ltd'', ec_docstatus = 0\<rparr>,
         \<lparr>ec_name = ''EXP-2'', ec_employee = ''EMP-1'', ec_employee_name = ''Ada'',
          ec_approval_status = ''Approved'', ec_status = ''Unpaid'',
          ec_expense_approver = Some ''lead@x.io'',
          ec_total_claimed_amount = 250, ec_total_sanctioned_amount = 200,
          ec_posting_date = 30, ec_company = Some ''X Ltd'', ec_docstatus = 1\<rparr>,
         \<lparr>ec_name = ''EXP-3'', ec_employee = ''EMP-1'', ec_employee_name = ''Ada'',
          ec_approval_status = ''Rejected'', ec_status = ''Rejected'',
          ec_expense_approver = Some ''lead@x.io'',
          ec_total_claimed_amount = 300, ec_total_sanctioned_amount = 300,
          ec_posting_date = 20, ec_company = Some ''X Ltd'', ec_docstatus = 1\<rparr>],
      tabExpense_Claim_Detail =
        [\<lparr>ecd_parent = ''EXP-1'', ecd_expense_type = Some ''Travel''\<rparr>,
         \<lparr>ecd_parent = ''EXP-2'', ecd_expense_type = Some ''Food''\<rparr>,
         \<lparr>ecd_parent = ''EXP-2'', ecd_expense_type = Some ''Travel''\<rparr>,
         \<lparr>ecd_parent = ''EXP-3'', ecd_expense_type = Some ''Others''\<rparr>],
      tabCompany = [\<lparr>company_name = ''X Ltd'', company_default_currency = Some ''EUR''\<rparr>],
      tabCurrency = [\<lparr>currency_name = ''EUR'', currency_symbol = None\<rparr>]\<rparr>"

definition claim_on_hold :: Expense_Claim where
  "claim_on_hold =
     \<lparr>ec_name = ''EXP-4'', ec_employee = ''EMP-1'', ec_employee_name = ''Ada'',
      ec_approval_status = ''On Hold'', ec_status = ''Draft'',
      ec_expense_approver = Some ''lead@x.io'',
      ec_total_claimed_amount = 400, ec_total_sanctioned_amount = 400,
      ec_posting_date = 40, ec_company = Some ''X Ltd'', ec_docstatus = 0\<rparr>"

definition claim_cancelled :: Expense_Claim where
  "claim_cancelled =
     \<lparr>ec_name = ''EXP-5'', ec_employee = ''EMP-1'', ec_employee_name = ''Ada'',
      ec_approval_status = ''Approved'', ec_status = ''Cancelled'',
      ec_expense_approver = Some ''lead@x.io'',
      ec_total_claimed_amount = 900, ec_total_sanctioned_amount = 900,
      ec_posting_date = 50, ec_company = Some ''X Ltd'', ec_docstatus = 2\<rparr>"

definition claim_foreign :: Expense_Claim where
  "claim_foreign =
     \<lparr>ec_name = ''EXP-6'', ec_employee = ''EMP-2'', ec_employee_name = ''Bob'',
      ec_approval_status = ''Draft'', ec_status = ''Draft'',
      ec_expense_approver = Some ''lead@x.io'',
      ec_total_claimed_amount = 500, ec_total_sanctioned_amount = 0,
      ec_posting_date = 60, ec_company = Some ''X Ltd'', ec_docstatus = 0\<rparr>"

definition claims_mixed :: claims_db where
  "claims_mixed =
     claims_ex\<lparr>tabExpense_Claim :=
       claim_cancelled # tabExpense_Claim claims_ex @ [claim_foreign]\<rparr>"

definition claims_partial :: claims_db where
  "claims_partial =
     \<lparr>tabExpense_Claim =
        [\<lparr>ec_name = ''EXP-1'', ec_employee = ''EMP-1'', ec_employee_name = ''Ada'',
          ec_approval_status = ''Draft'', ec_status = ''Draft'',
          ec_expense_approver = Some ''lead@x.io'',
          ec_total_claimed_amount = 100, ec_total_sanctioned_amount = 0,
          ec_posting_date = 10, ec_company = Some ''X Ltd'', ec_docstatus = 0\<rparr>,
         \<lparr>ec_name = ''EXP-2'', ec_employee = ''EMP-1'', ec_employee_name = ''Ada'',
          ec_approval_status = ''Approved'', ec_status = ''Unpaid'',
          ec_expense_approver = Some ''lead@x.io'',
          ec_total_claimed_amount = 200, ec_total_sanctioned_amount = 150,
          ec_posting_date = 30, ec_company = Some ''X Ltd'', ec_docstatus = 1\<rparr>,
         \<lparr>ec_name = ''EXP-3'', ec_employee = ''EMP-1'', ec_employee_name = ''Ada'',
          ec_approval_status = ''Rejected'', ec_status = ''Rejected'',
          ec_expense_approver = Some ''lead@x.io'',
          ec_total_claimed_amount = 300, ec_total_sanctioned_amount = 0,
          ec_posting_date = 20, ec_company = Some ''X Ltd'', ec_docstatus = 1\<rparr>],
      tabExpense_Claim_Detail = [],
      tabCompany = [\<lparr>company_name = ''X Ltd'', company_default_currency = Some ''EUR''\<rparr>],
      tabCurrency = [\<lparr>currency_name = ''EUR'', currency_symbol = None\<rparr>]\<rparr>"

text \<open>
  A session whose role may cancel and delete leave applications as a doctype, while
  on a single document the permission holds only where the user is its leave approver.
\<close>

definition frappe_ex :: frappe where
  "frappe_ex =
     \<lparr>session_user = ''lead@x.io'',
      has_permission =
        (\<lambda>doctype ptype doc user.
           doctype = ''Leave Application'' \<and> user = ''lead@x.io''
           \<and> (case doc of None \<Rightarrow> True | Some l \<Rightarrow> la_leave_approver l = Some user)),
      get_list_permitted = (\<lambda>l. True)\<rparr>"

definition tabLeave_Application_ex :: "Leave_Application list" where
  "tabLeave_Application_ex =
     [\<lparr>la_name = ''LA-1'', la_employee = ''EMP-1'', la_employee_name = ''Ada'',
       la_leave_type = ''Casual Leave'', la_status = ''Open'', la_from_date = 100,
       la_to_date = 101, la_half_day = 0, la_half_day_date = None, la_description = None,
       la_total_leave_days = 2, la_leave_balance = 5,
       la_leave_approver = Some ''head@x.io'', la_posting_date = 90, la_docstatus = 0\<rparr>,
      \<lparr>la_name = ''LA-2'', la_employee = ''EMP-1'', la_employee_name = ''Ada'',
       la_leave_type = ''Casual Leave'', la_status = ''Approved'', la_from_date = 120,
       la_to_date = 120, la_half_day = 0, la_half_day_date = None, la_description = None,
       la_total_leave_days = 1, la_leave_balance = 3,
       la_leave_approver = Some ''lead@x.io'', la_posting_date = 110, la_docstatus = 1\<rparr>]"

text \<open>
  Modelled from the spec: the allow-list \<^verbatim>\<open>ALLOWED_MIMETYPES\<close> of \<^verbatim>\<open>frappe.handler\<close>,
  which is not part of this module: JPG, PNG, PDF, TXT and Microsoft Office documents.
\<close>

definition ALLOWED_MIMETYPES_ex :: "string list" where
  "ALLOWED_MIMETYPES_ex =
     [''image/png'', ''image/jpeg'', ''application/pdf'', ''application/msword'',
      ''application/vnd.openxmlformats-officedocument.wordprocessingml.document'',
      ''application/vnd.ms-excel'',
      ''application/vnd.openxmlformats-officedocument.spreadsheetml.sheet'',
      ''text/plain'']"

text \<open>
  \<^verbatim>\<open>mimetypes.guess_type(filename)[0]\<close> for a plain file name (no URL scheme), in
  strict mode: \<^verbatim>\<open>posixpath.splitext\<close>, which ignores leading dots of the base name;
  the suffix map and the encodings map; then the type map, looked up by the extension
  in lower case. The type map is an excerpt of the standard one.
\<close>

definition ascii_lower :: "string \<Rightarrow> string" where
  "ascii_lower s =
     map (\<lambda>c. case map_of (zip ''ABCDEFGHIJKLMNOPQRSTUVWXYZ'' ''abcdefghijklmnopqrstuvwxyz'') c of
                None \<Rightarrow> c
              | Some l \<Rightarrow> l) s"

definition splitext :: "string \<Rightarrow> string \<times> string" where
  "splitext p =
     (let name_rev = takeWhile (\<lambda>c. c \<noteq> CHR ''/'') (rev p);
          dir_rev = dropWhile (\<lambda>c. c \<noteq> CHR ''/'') (rev p);
          ext_rev = takeWhile (\<lambda>c. c \<noteq> CHR ''.'') name_rev
      in case dropWhile (\<lambda>c. c \<noteq> CHR ''.'') name_rev of
           [] \<Rightarrow> (p, [])
         | dot # stem_rev \<Rightarrow>
             if list_ex (\<lambda>c. c \<noteq> CHR ''.'') stem_rev
             then (rev dir_rev @ rev stem_rev, CHR ''.'' # rev ext_rev)
             else (p, []))"

definition suffix_map :: "(string \<times> string) list" where
  "suffix_map =
     [(''.svgz'', ''.svg.gz''), (''.tgz'', ''.tar.gz''), (''.taz'', ''.tar.gz''),
      (''.tz'', ''.tar.gz''), (''.tbz2'', ''.tar.bz2''), (''.txz'', ''.tar.xz'')]"

definition encodings_map :: "(string \<times> string) list" where
  "encodings_map =
     [(''.gz'', ''gzip''), (''.Z'', ''compress''), (''.bz2'', ''bzip2''), (''.xz'', ''xz''),
      (''.br'', ''br'')]"

definition types_map_ex :: "(string \<times> string) list" where
  "types_map_ex =
     [(''.pdf'', ''application/pdf''),
      (''.png'', ''image/png''),
      (''.jpg'', ''image/jpeg''), (''.jpeg'', ''image/jpeg''), (''.jpe'', ''image/jpeg''),
      (''.txt'', ''text/plain''),
      (''.csv'', ''text/csv''),
      (''.doc'', ''application/msword''), (''.dot'', ''application/msword''),
      (''.docx'', ''application/vnd.openxmlformats-officedocument.wordprocessingml.document''),
      (''.xls'', ''application/vnd.ms-excel''),
      (''.xlsx'', ''application/vnd.openxmlformats-officedocument.spreadsheetml.sheet''),
      (''.ppt'', ''application/vnd.ms-powerpoint''),
      (''.pptx'',
         ''application/vnd.openxmlformats-officedocument.presentationml.presentation''),
      (''.exe'', ''application/octet-stream''), (''.dll'', ''application/octet-stream''),
      (''.html'', ''text/html''), (''.htm'', ''text/html''),
      (''.svg'', ''image/svg+xml''),
      (''.tar'', ''application/x-tar''),
      (''.zip'', ''application/zip'')]"

definition guess_type_ex :: "string \<Rightarrow> string option" where
  "guess_type_ex filename =
     (let (base, ext) = splitext filename;
          (base, ext) =
            (case map_of suffix_map (ascii_lower ext) of
               None \<Rightarrow> (base, ext)
             | Some s \<Rightarrow> splitext (base @ s));
          (base, ext) =
            (if ext \<in> set (map fst encodings_map) then splitext base else (base, ext))
      in map_of types_map_ex (ascii_lower ext))"

section \<open>Facts about approver resolution\<close>

lemmas approval_defs =
  get_leave_approval_details_def get_expense_approval_details_def
  get_cached_Employee_def get_value_Department_Approver_def get_value_User_full_name_def
  get_value_Department_def departments_def join_User_Approver_def get_department_approvers_def
  append_primary_def truthy_def Let_def

lemma truthy_Some: "truthy v \<longleftrightarrow> (\<exists>a. v = Some a \<and> a \<noteq> [])"
  by (cases v) (simp_all add: truthy_def)

lemma get_department_approvers_falsy:
  "\<not> truthy department \<Longrightarrow> get_department_approvers d department parentfield = Inr []"
  by (cases department) (simp_all add: truthy_def get_department_approvers_def)

lemma get_department_approvers_found:
  "dep \<noteq> [] \<Longrightarrow> get_value_Department d dep = Some q \<Longrightarrow>
   get_department_approvers d (Some dep) parentfield =
     (if departments d q = [] then Inl DatabaseError
      else Inr (join_User_Approver d (departments d q) parentfield))"
  by (simp add: get_department_approvers_def)

lemma get_department_approvers_total:
  assumes "\<forall>dep. department = Some dep \<and> dep \<noteq> [] \<longrightarrow>
             (\<exists>q. get_value_Department d dep = Some q \<and> departments d q \<noteq> [])"
  shows "\<exists>rows. get_department_approvers d department parentfield = Inr rows"
  using assms
  by (cases department) (auto simp: get_department_approvers_def split: option.splits)

lemma get_value_Department_Some:
  "get_value_Department d dep = Some q \<Longrightarrow> q \<in> set (tabDepartment d) \<and> dept_name q = dep"
  by (auto simp: get_value_Department_def find_Some_iff)

lemma departments_iff:
  assumes "distinct (map dept_name (tabDepartment d))" and "x \<in> set (tabDepartment d)"
  shows "dept_name x \<in> set (departments d q) \<longleftrightarrow>
         dept_lft x \<le> dept_lft q \<and> dept_rgt q \<le> dept_rgt x \<and> dept_disabled x = 0"
proof -
  from assms(1) have inj: "inj_on dept_name (set (tabDepartment d))"
    by (simp add: distinct_map)
  show ?thesis
  proof
    assume "dept_name x \<in> set (departments d q)"
    then obtain y where y: "y \<in> set (tabDepartment d)" "dept_name y = dept_name x"
      "dept_lft y \<le> dept_lft q \<and> dept_rgt q \<le> dept_rgt y \<and> dept_disabled y = 0"
      by (auto simp: departments_def)
    with inj assms(2) have "y = x" by (auto dest: inj_onD)
    with y show "dept_lft x \<le> dept_lft q \<and> dept_rgt q \<le> dept_rgt x \<and> dept_disabled x = 0"
      by simp
  next
    assume "dept_lft x \<le> dept_lft q \<and> dept_rgt q \<le> dept_rgt x \<and> dept_disabled x = 0"
    with assms(2) show "dept_name x \<in> set (departments d q)"
      by (auto simp: departments_def)
  qed
qed

lemma join_mem:
  "r \<in> set (join_User_Approver d parents parentfield) \<longleftrightarrow>
     (\<exists>u\<in>set (tabUser d). \<exists>a\<in>set (tabDepartment_Approver d).
        da_approver a = user_name u \<and> da_parent a \<in> set parents
        \<and> da_parentfield a = parentfield
        \<and> r = \<lparr>ar_name = user_name u, ar_full_name = user_full_name u\<rparr>)"
  by (auto simp: join_User_Approver_def)

lemma join_names:
  "n \<in> ar_name ` set (join_User_Approver d parents parentfield) \<longleftrightarrow>
     (\<exists>a\<in>set (tabDepartment_Approver d). da_approver a = n \<and> da_parent a \<in> set parents
        \<and> da_parentfield a = parentfield \<and> n \<in> user_name ` set (tabUser d))"
proof
  assume "n \<in> ar_name ` set (join_User_Approver d parents parentfield)"
  then obtain r where "r \<in> set (join_User_Approver d parents parentfield)" "n = ar_name r"
    by blast
  then show "\<exists>a\<in>set (tabDepartment_Approver d). da_approver a = n \<and> da_parent a \<in> set parents
        \<and> da_parentfield a = parentfield \<and> n \<in> user_name ` set (tabUser d)"
    unfolding join_mem by force
next
  assume "\<exists>a\<in>set (tabDepartment_Approver d). da_approver a = n \<and> da_parent a \<in> set parents
        \<and> da_parentfield a = parentfield \<and> n \<in> user_name ` set (tabUser d)"
  then obtain a u where au: "a \<in> set (tabDepartment_Approver d)" "da_approver a = n"
    "da_parent a \<in> set parents" "da_parentfield a = parentfield"
    "u \<in> set (tabUser d)" "n = user_name u"
    by blast
  then have "\<lparr>ar_name = user_name u, ar_full_name = user_full_name u\<rparr>
               \<in> set (join_User_Approver d parents parentfield)"
    unfolding join_mem by blast
  then have "ar_name \<lparr>ar_name = user_name u, ar_full_name = user_full_name u\<rparr>
               \<in> ar_name ` set (join_User_Approver d parents parentfield)"
    by (rule imageI)
  with au show "n \<in> ar_name ` set (join_User_Approver d parents parentfield)"
    by simp
qed





lemma append_primary_cases:
  "append_primary p n xs = xs \<and> (\<forall>a. p = Some a \<and> a \<noteq> [] \<longrightarrow> a \<in> set (map ar_name xs))
   \<or> (\<exists>a. p = Some a \<and> a \<noteq> [] \<and> a \<notin> set (map ar_name xs)
          \<and> append_primary p n xs = xs @ [\<lparr>ar_name = a, ar_full_name = n\<rparr>])"
  by (cases p) (auto simp: append_primary_def)







lemma leave_details_Inr:
  assumes "get_cached_Employee d employee = Inr e"
      and "get_department_approvers d (emp_department e) ''leave_approvers'' = Inr ls"
  shows "\<exists>r. get_leave_approval_details d employee = Inr r
           \<and> leave_department_approvers r =
               append_primary (leave_approver r) (leave_approver_name r) ls
           \<and> leave_approver r =
               (case emp_department e of
                  None \<Rightarrow> emp_leave_approver e
                | Some dep \<Rightarrow>
                    if \<not> truthy (emp_leave_approver e) \<and> dep \<noteq> []
                    then get_value_Department_Approver d dep ''leave_approvers'' 1
                    else emp_leave_approver e)"
  using assms by (simp add: get_leave_approval_details_def Let_def)

lemma expense_details_Inr:
  assumes "get_cached_Employee d employee = Inr e"
      and "get_department_approvers d (emp_department e) ''expense_approvers'' = Inr xs"
  shows "\<exists>r. get_expense_approval_details d employee = Inr r
           \<and> expense_department_approvers r =
               append_primary (expense_approver r) (expense_approver_name r) xs
           \<and> expense_approver r =
               (case emp_department e of
                  None \<Rightarrow> emp_expense_approver e
                | Some dep \<Rightarrow>
                    if \<not> truthy (emp_expense_approver e) \<and> dep \<noteq> []
                    then get_value_Department_Approver d dep ''expense_approvers'' 1
                    else emp_expense_approver e)"
  using assms by (simp add: get_expense_approval_details_def Let_def)

lemma get_cached_Employee_update [simp]:
  "get_cached_Employee (d\<lparr>tabDepartment_Approver := t\<rparr>) employee = get_cached_Employee d employee"
  by (simp add: get_cached_Employee_def)

lemma get_value_Department_update [simp]:
  "get_value_Department (d\<lparr>tabDepartment_Approver := t\<rparr>) dep = get_value_Department d dep"
  by (simp add: get_value_Department_def)

lemma departments_update [simp]:
  "departments (d\<lparr>tabDepartment_Approver := t\<rparr>) q = departments d q"
  by (simp add: departments_def)

lemma get_value_Department_Approver_unique:
  assumes "a \<in> set (tabDepartment_Approver d)"
      and "da_parent a = dep" "da_parentfield a = pf" "da_idx a = i"
      and "\<forall>b\<in>set (tabDepartment_Approver d).
             da_parent b = dep \<and> da_parentfield b = pf \<and> da_idx b = i \<longrightarrow>
             da_approver b = da_approver a"
  shows "get_value_Department_Approver d dep pf i = Some (da_approver a)"
proof (cases "find (\<lambda>a. da_parent a = dep \<and> da_parentfield a = pf \<and> da_idx a = i)
                (tabDepartment_Approver d)")
  case None
  with assms(1-4) show ?thesis by (auto simp: find_None_iff)
next
  case (Some b)
  then have "b \<in> set (tabDepartment_Approver d)"
    "da_parent b = dep \<and> da_parentfield b = pf \<and> da_idx b = i"
    by (auto simp: find_Some_iff)
  with assms(5) have "da_approver b = da_approver a" by blast
  with Some show ?thesis by (simp add: get_value_Department_Approver_def)
qed

lemma get_value_Department_Approver_none:
  assumes "\<forall>b\<in>set (tabDepartment_Approver d).
             \<not> (da_parent b = dep \<and> da_parentfield b = pf \<and> da_idx b = i)"
  shows "get_value_Department_Approver d dep pf i = None"
proof -
  from assms have "find (\<lambda>a. da_parent a = dep \<and> da_parentfield a = pf \<and> da_idx a = i)
                (tabDepartment_Approver d) = None"
    by (simp add: find_None_iff)
  then show ?thesis by (simp add: get_value_Department_Approver_def)
qed

section \<open>The department set of get_department_approvers\<close>

text \<open>
  Claim C1, as the code has it. For a department with nested-interval bounds whose
  name is a key of the Department table, the departments whose approvers
  \<^verbatim>\<open>get_department_approvers\<close> collects are the non-disabled departments whose interval
  contains the interval of the queried one (\<open>lft \<le> lft\<close> of the query and
  \<open>rgt \<ge> rgt\<close> of the query): the queried department itself when it is not disabled,
  and its non-disabled ancestors. The names it returns are the approvers of these
  departments for the parentfield that are users. A department (2, 7) is not selected
  for a query (1, 10), nor is (11, 12); a non-disabled (1, 10) is selected for a
  query (2, 7).
\<close>

theorem C1_departments_are_ancestors:
  assumes uniq: "distinct (map dept_name (tabDepartment d))"
      and q: "get_value_Department d dep = Some q"
      and dep: "dep \<noteq> []"
  shows "get_department_approvers d (Some dep) parentfield =
           (if departments d q = [] then Inl DatabaseError
            else Inr (join_User_Approver d (departments d q) parentfield))
       \<and> (\<forall>n. n \<in> ar_name ` set (join_User_Approver d (departments d q) parentfield) \<longleftrightarrow>
            (\<exists>a\<in>set (tabDepartment_Approver d).
               da_approver a = n \<and> da_parent a \<in> set (departments d q)
               \<and> da_parentfield a = parentfield \<and> n \<in> user_name ` set (tabUser d)))
       \<and> (\<forall>x\<in>set (tabDepartment d).
            dept_name x \<in> set (departments d q) \<longleftrightarrow>
            dept_lft x \<le> dept_lft q \<and> dept_rgt q \<le> dept_rgt x \<and> dept_disabled x = 0)
       \<and> (dep \<in> set (departments d q) \<longleftrightarrow> dept_disabled q = 0)
       \<and> (\<forall>x\<in>set (tabDepartment d).
            dept_lft q = 1 \<and> dept_rgt q = 10 \<and> dept_lft x = 2 \<and> dept_rgt x = 7 \<longrightarrow>
            dept_name x \<notin> set (departments d q))
       \<and> (\<forall>x\<in>set (tabDepartment d).
            dept_lft q = 1 \<and> dept_rgt q = 10 \<and> dept_lft x = 11 \<and> dept_rgt x = 12 \<longrightarrow>
            dept_name x \<notin> set (departments d q))
       \<and> (\<forall>x\<in>set (tabDepartment d).
            dept_lft q = 2 \<and> dept_rgt q = 7 \<and> dept_lft x = 1 \<and> dept_rgt x = 10
              \<and> dept_disabled x = 0 \<longrightarrow>
            dept_name x \<in> set (departments d q))"
proof -
  note iff = departments_iff [OF uniq]
  from q have qin: "q \<in> set (tabDepartment d)" and qn: "dept_name q = dep"
    by (simp_all add: get_value_Department_Some)
  have p1: "get_department_approvers d (Some dep) parentfield =
           (if departments d q = [] then Inl DatabaseError
            else Inr (join_User_Approver d (departments d q) parentfield))"
    using dep q by (rule get_department_approvers_found)
  have p2: "\<forall>n. n \<in> ar_name ` set (join_User_Approver d (departments d q) parentfield) \<longleftrightarrow>
            (\<exists>a\<in>set (tabDepartment_Approver d).
               da_approver a = n \<and> da_parent a \<in> set (departments d q)
               \<and> da_parentfield a = parentfield \<and> n \<in> user_name ` set (tabUser d))"
    by (intro allI join_names)
  have p3: "\<forall>x\<in>set (tabDepartment d).
            dept_name x \<in> set (departments d q) \<longleftrightarrow>
            dept_lft x \<le> dept_lft q \<and> dept_rgt q \<le> dept_rgt x \<and> dept_disabled x = 0"
    by (intro ballI iff)
  have p4: "dep \<in> set (departments d q) \<longleftrightarrow> dept_disabled q = 0"
    using iff [OF qin, of q] qn by simp
  have p5: "\<forall>x\<in>set (tabDepartment d).
            dept_lft q = 1 \<and> dept_rgt q = 10 \<and> dept_lft x = 2 \<and> dept_rgt x = 7 \<longrightarrow>
            dept_name x \<notin> set (departments d q)"
    by (simp add: iff)
  have p6: "\<forall>x\<in>set (tabDepartment d).
            dept_lft q = 1 \<and> dept_rgt q = 10 \<and> dept_lft x = 11 \<and> dept_rgt x = 12 \<longrightarrow>
            dept_name x \<notin> set (departments d q)"
    by (simp add: iff)
  have p7: "\<forall>x\<in>set (tabDepartment d).
            dept_lft q = 2 \<and> dept_rgt q = 7 \<and> dept_lft x = 1 \<and> dept_rgt x = 10
              \<and> dept_disabled x = 0 \<longrightarrow>
            dept_name x \<in> set (departments d q)"
    by (simp add: iff)
  from p1 p2 p3 p4 p5 p6 p7 show ?thesis by (intro conjI)
qed

text \<open>
  At the example: queried for \<open>Sales\<close>, the set holds \<open>HQ\<close> and \<open>Sales\<close> and not
  \<open>Legal\<close>.
\<close>

theorem C1_witness:
  "distinct (map dept_name (tabDepartment db_tree))
   \<and> get_value_Department db_tree ''Sales'' =
       Some \<lparr>dept_name = ''Sales'', dept_lft = 2, dept_rgt = 7, dept_disabled = 0\<rparr>
   \<and> get_department_approvers db_tree (Some ''Sales'') ''leave_approvers'' =
       Inr (join_User_Approver db_tree
              (departments db_tree
                 \<lparr>dept_name = ''Sales'', dept_lft = 2, dept_rgt = 7, dept_disabled = 0\<rparr>)
              ''leave_approvers'')
   \<and> ''HQ'' \<in> set (departments db_tree
                 \<lparr>dept_name = ''Sales'', dept_lft = 2, dept_rgt = 7, dept_disabled = 0\<rparr>)
   \<and> ''Sales'' \<in> set (departments db_tree
                 \<lparr>dept_name = ''Sales'', dept_lft = 2, dept_rgt = 7, dept_disabled = 0\<rparr>)
   \<and> ''Legal'' \<notin> set (departments db_tree
                 \<lparr>dept_name = ''Sales'', dept_lft = 2, dept_rgt = 7, dept_disabled = 0\<rparr>)"
proof -
  have h1: "distinct (map dept_name (tabDepartment db_tree))"
    by (simp add: db_tree_def)
  have h2: "get_value_Department db_tree ''Sales'' =
       Some \<lparr>dept_name = ''Sales'', dept_lft = 2, dept_rgt = 7, dept_disabled = 0\<rparr>"
    by (simp add: db_tree_def get_value_Department_def)
  have h3: "''Sales'' \<noteq> []" by simp
  have tab: "set (tabDepartment db_tree) =
     {\<lparr>dept_name = ''HQ'', dept_lft = 1, dept_rgt = 10, dept_disabled = 0\<rparr>,
      \<lparr>dept_name = ''Sales'', dept_lft = 2, dept_rgt = 7, dept_disabled = 0\<rparr>,
      \<lparr>dept_name = ''Legal'', dept_lft = 11, dept_rgt = 12, dept_disabled = 0\<rparr>}"
    by (simp add: db_tree_def)
  have ne: "departments db_tree
              \<lparr>dept_name = ''Sales'', dept_lft = 2, dept_rgt = 7, dept_disabled = 0\<rparr> \<noteq> []"
    by (simp add: db_tree_def departments_def)
  note c = C1_departments_are_ancestors [OF h1 h2 h3, of "''leave_approvers''"]
  note sel = c [THEN conjunct2, THEN conjunct2, THEN conjunct1]
  from c [THEN conjunct1] sel h1 h2 ne
  show ?thesis unfolding tab by simp
qed

text \<open>
  Claim C1 as stated fails: queried for \<open>HQ\<close> (1, 10), the department set is
  \<open>HQ\<close> alone, without its descendant \<open>Sales\<close> (2, 7), and the approver
  \<open>lead@x.io\<close> of \<open>Sales\<close> is not collected.
\<close>

theorem C1_counterexample:
  "get_value_Department db_tree ''HQ'' =
     Some \<lparr>dept_name = ''HQ'', dept_lft = 1, dept_rgt = 10, dept_disabled = 0\<rparr>
   \<and> departments db_tree \<lparr>dept_name = ''HQ'', dept_lft = 1, dept_rgt = 10, dept_disabled = 0\<rparr>
       = [''HQ'']
   \<and> get_department_approvers db_tree (Some ''HQ'') ''leave_approvers''
       = Inr [\<lparr>ar_name = ''head@x.io'', ar_full_name = Some ''Hana Head''\<rparr>]"
  by (simp add: db_tree_def approval_defs)

section \<open>Employees without a department\<close>

text \<open>
  Claim C2, as the code has it. For an employee whose department is empty,
  \<^verbatim>\<open>get_department_approvers\<close> returns the empty list, so both endpoints return a
  \<^verbatim>\<open>department_approvers\<close> list that is empty when there is no override and that holds
  exactly the override approver, once, when there is one.
\<close>

theorem C2_empty_department_only_primary:
  assumes emp: "get_cached_Employee d employee = Inr e"
      and nodep: "\<not> truthy (emp_department e)"
  shows "get_department_approvers d (emp_department e) ''leave_approvers'' = Inr []
       \<and> get_department_approvers d (emp_department e) ''expense_approvers'' = Inr []
       \<and> (\<exists>r. get_leave_approval_details d employee = Inr r
            \<and> leave_approver r = emp_leave_approver e
            \<and> (\<not> truthy (emp_leave_approver e) \<longrightarrow> leave_department_approvers r = [])
            \<and> (\<forall>a. emp_leave_approver e = Some a \<and> a \<noteq> [] \<longrightarrow>
                  leave_department_approvers r =
                    [\<lparr>ar_name = a, ar_full_name = get_value_User_full_name d (Some a)\<rparr>]))
       \<and> (\<exists>r. get_expense_approval_details d employee = Inr r
            \<and> expense_approver r = emp_expense_approver e
            \<and> (\<not> truthy (emp_expense_approver e) \<longrightarrow> expense_department_approvers r = [])
            \<and> (\<forall>a. emp_expense_approver e = Some a \<and> a \<noteq> [] \<longrightarrow>
                  expense_department_approvers r =
                    [\<lparr>ar_name = a, ar_full_name = get_value_User_full_name d (Some a)\<rparr>]))"
proof -
  have l: "get_department_approvers d (emp_department e) ''leave_approvers'' = Inr []"
    using nodep by (rule get_department_approvers_falsy)
  have x: "get_department_approvers d (emp_department e) ''expense_approvers'' = Inr []"
    using nodep by (rule get_department_approvers_falsy)
  have dep: "emp_department e = None \<or> emp_department e = Some []"
    using nodep by (cases "emp_department e") (simp_all add: truthy_def)
  have L: "\<exists>r. get_leave_approval_details d employee = Inr r
            \<and> leave_approver r = emp_leave_approver e
            \<and> (\<not> truthy (emp_leave_approver e) \<longrightarrow> leave_department_approvers r = [])
            \<and> (\<forall>a. emp_leave_approver e = Some a \<and> a \<noteq> [] \<longrightarrow>
                  leave_department_approvers r =
                    [\<lparr>ar_name = a, ar_full_name = get_value_User_full_name d (Some a)\<rparr>])"
    using emp l dep
    by (cases "emp_leave_approver e")
       (auto simp: get_leave_approval_details_def Let_def append_primary_def truthy_def)
  have X: "\<exists>r. get_expense_approval_details d employee = Inr r
            \<and> expense_approver r = emp_expense_approver e
            \<and> (\<not> truthy (emp_expense_approver e) \<longrightarrow> expense_department_approvers r = [])
            \<and> (\<forall>a. emp_expense_approver e = Some a \<and> a \<noteq> [] \<longrightarrow>
                  expense_department_approvers r =
                    [\<lparr>ar_name = a, ar_full_name = get_value_User_full_name d (Some a)\<rparr>])"
    using emp x dep
    by (cases "emp_expense_approver e")
       (auto simp: get_expense_approval_details_def Let_def append_primary_def truthy_def)
  from l x L X show ?thesis by blast
qed

text \<open>
  At the example: \<open>EMP-2\<close> has an override and no department, and the list of each
  endpoint is the override alone.
\<close>

theorem C2_witness:
  "get_cached_Employee db_tree ''EMP-2'' = Inr (tabEmployee db_tree ! 1)
   \<and> \<not> truthy (emp_department (tabEmployee db_tree ! 1))
   \<and> (\<exists>r. get_leave_approval_details db_tree ''EMP-2'' = Inr r
         \<and> leave_department_approvers r =
             [\<lparr>ar_name = ''boss@x.io'', ar_full_name = Some ''Bo Boss''\<rparr>])
   \<and> (\<exists>r. get_expense_approval_details db_tree ''EMP-2'' = Inr r
         \<and> expense_department_approvers r =
             [\<lparr>ar_name = ''boss@x.io'', ar_full_name = Some ''Bo Boss''\<rparr>])"
proof -
  have h1: "get_cached_Employee db_tree ''EMP-2'' = Inr (tabEmployee db_tree ! 1)"
    by (simp add: db_tree_def get_cached_Employee_def)
  have h2: "\<not> truthy (emp_department (tabEmployee db_tree ! 1))"
    by (simp add: db_tree_def truthy_def)
  have ov: "emp_leave_approver (tabEmployee db_tree ! 1) = Some ''boss@x.io''"
    "emp_expense_approver (tabEmployee db_tree ! 1) = Some ''boss@x.io''"
    by (simp_all add: db_tree_def)
  have n: "get_value_User_full_name db_tree (Some ''boss@x.io'') = Some ''Bo Boss''"
    by (simp add: db_tree_def get_value_User_full_name_def)
  from C2_empty_department_only_primary [OF h1 h2] h1 h2 show ?thesis
    unfolding ov by (auto simp: n)
qed

text \<open>
  Claim C2 as stated fails: for \<open>EMP-2\<close>, whose department is \<open>None\<close>, both
  endpoints return a list of one entry, the override approver.
\<close>

theorem C2_counterexample:
  "emp_department \<lparr>emp_name = ''EMP-2'', emp_leave_approver = Some ''boss@x.io'',
          emp_expense_approver = Some ''boss@x.io'', emp_department = None\<rparr> = None
   \<and> get_leave_approval_details db_tree ''EMP-2'' =
     Inr \<lparr>leave_approver = Some ''boss@x.io'',
          leave_approver_name = Some ''Bo Boss'',
          leave_department_approvers =
            [\<lparr>ar_name = ''boss@x.io'', ar_full_name = Some ''Bo Boss''\<rparr>],
          leave_is_mandatory = 1\<rparr>
   \<and> get_expense_approval_details db_tree ''EMP-2'' =
     Inr \<lparr>expense_approver = Some ''boss@x.io'',
          expense_approver_name = Some ''Bo Boss'',
          expense_department_approvers =
            [\<lparr>ar_name = ''boss@x.io'', ar_full_name = Some ''Bo Boss''\<rparr>],
          expense_is_mandatory = 0\<rparr>"
  by (simp add: db_tree_def approval_defs)

section \<open>The primary approver among the alternates\<close>




section \<open>The override as primary approver\<close>

text \<open>
  Claim C4. For an employee whose override for the category is non-empty, the
  endpoint returns that override as the primary approver, whatever the Department
  Approver table holds. The endpoint returns when the employee's department, if set,
  is a row of the Department table for which some department is selected.
\<close>

theorem C4_override_is_primary:
  assumes emp: "get_cached_Employee d employee = Inr e"
      and dept: "\<forall>dep. emp_department e = Some dep \<and> dep \<noteq> [] \<longrightarrow>
                   (\<exists>q. get_value_Department d dep = Some q \<and> departments d q \<noteq> [])"
  shows "(truthy (emp_leave_approver e) \<longrightarrow>
            (\<forall>t. \<exists>r. get_leave_approval_details (d\<lparr>tabDepartment_Approver := t\<rparr>) employee = Inr r
                   \<and> leave_approver r = emp_leave_approver e))
       \<and> (truthy (emp_expense_approver e) \<longrightarrow>
            (\<forall>t. \<exists>r. get_expense_approval_details (d\<lparr>tabDepartment_Approver := t\<rparr>) employee = Inr r
                   \<and> expense_approver r = emp_expense_approver e))"
proof (intro conjI impI allI)
  fix t
  let ?d = "d\<lparr>tabDepartment_Approver := t\<rparr>"
  assume ov: "truthy (emp_leave_approver e)"
  have emp': "get_cached_Employee ?d employee = Inr e" using emp by simp
  have "\<forall>dep. emp_department e = Some dep \<and> dep \<noteq> [] \<longrightarrow>
          (\<exists>q. get_value_Department ?d dep = Some q \<and> departments ?d q \<noteq> [])"
    using dept by simp
  from get_department_approvers_total [OF this] obtain ls where
    "get_department_approvers ?d (emp_department e) ''leave_approvers'' = Inr ls" by blast
  from leave_details_Inr [OF emp' this] ov
  show "\<exists>r. get_leave_approval_details ?d employee = Inr r
           \<and> leave_approver r = emp_leave_approver e"
    by (auto split: option.splits)
next
  fix t
  let ?d = "d\<lparr>tabDepartment_Approver := t\<rparr>"
  assume ov: "truthy (emp_expense_approver e)"
  have emp': "get_cached_Employee ?d employee = Inr e" using emp by simp
  have "\<forall>dep. emp_department e = Some dep \<and> dep \<noteq> [] \<longrightarrow>
          (\<exists>q. get_value_Department ?d dep = Some q \<and> departments ?d q \<noteq> [])"
    using dept by simp
  from get_department_approvers_total [OF this] obtain xs where
    "get_department_approvers ?d (emp_department e) ''expense_approvers'' = Inr xs" by blast
  from expense_details_Inr [OF emp' this] ov
  show "\<exists>r. get_expense_approval_details ?d employee = Inr r
           \<and> expense_approver r = emp_expense_approver e"
    by (auto split: option.splits)
qed

text \<open>
  At the example: \<open>EMP-3\<close> keeps its overrides as primaries when the Department
  Approver table is emptied.
\<close>

theorem C4_witness:
  "get_cached_Employee db_tree ''EMP-3'' = Inr (tabEmployee db_tree ! 2)
   \<and> truthy (emp_leave_approver (tabEmployee db_tree ! 2))
   \<and> truthy (emp_expense_approver (tabEmployee db_tree ! 2))
   \<and> (\<exists>r. get_leave_approval_details (db_tree\<lparr>tabDepartment_Approver := []\<rparr>) ''EMP-3'' = Inr r
         \<and> leave_approver r = Some ''head@x.io'')
   \<and> (\<exists>r. get_expense_approval_details (db_tree\<lparr>tabDepartment_Approver := []\<rparr>) ''EMP-3'' = Inr r
         \<and> expense_approver r = Some ''boss@x.io'')"
proof -
  have h1: "get_cached_Employee db_tree ''EMP-3'' = Inr (tabEmployee db_tree ! 2)"
    by (simp add: db_tree_def get_cached_Employee_def)
  have h2: "\<forall>dep. emp_department (tabEmployee db_tree ! 2) = Some dep \<and> dep \<noteq> [] \<longrightarrow>
              (\<exists>q. get_value_Department db_tree dep = Some q \<and> departments db_tree q \<noteq> [])"
    by (simp add: db_tree_def get_value_Department_def departments_def)
  have ov: "emp_leave_approver (tabEmployee db_tree ! 2) = Some ''head@x.io''"
    "emp_expense_approver (tabEmployee db_tree ! 2) = Some ''boss@x.io''"
    by (simp_all add: db_tree_def)
  have t: "truthy (Some ''head@x.io'')" "truthy (Some ''boss@x.io'')"
    by (simp_all add: truthy_def)
  from C4_override_is_primary [OF h1 h2] h1 show ?thesis
    unfolding ov using t by simp
qed

section \<open>The department's first approver as primary\<close>

text \<open>
  Claim C5. For an employee with no override for the category the endpoint returns:
  with a department, the approver of the Department Approver entry of that department
  with the category's parentfield and \<open>idx = 1\<close> (\<open>None\<close> when there is no such
  entry); without a department, an empty primary. The endpoint returns when the
  employee's department, if set, is a row of the Department table for which some
  department is selected.
\<close>

theorem C5_department_first_approver_is_primary:
  assumes emp: "get_cached_Employee d employee = Inr e"
      and dept: "\<forall>dep. emp_department e = Some dep \<and> dep \<noteq> [] \<longrightarrow>
                   (\<exists>q. get_value_Department d dep = Some q \<and> departments d q \<noteq> [])"
  shows "(\<not> truthy (emp_leave_approver e) \<longrightarrow>
            (\<exists>r. get_leave_approval_details d employee = Inr r
               \<and> (\<forall>dep. emp_department e = Some dep \<and> dep \<noteq> [] \<longrightarrow>
                    leave_approver r = get_value_Department_Approver d dep ''leave_approvers'' 1
                    \<and> (\<forall>a\<in>set (tabDepartment_Approver d).
                         da_parent a = dep \<and> da_parentfield a = ''leave_approvers'' \<and> da_idx a = 1
                         \<and> (\<forall>b\<in>set (tabDepartment_Approver d).
                               da_parent b = dep \<and> da_parentfield b = ''leave_approvers''
                               \<and> da_idx b = 1 \<longrightarrow> da_approver b = da_approver a)
                         \<longrightarrow> leave_approver r = Some (da_approver a))
                    \<and> ((\<forall>b\<in>set (tabDepartment_Approver d).
                          \<not> (da_parent b = dep \<and> da_parentfield b = ''leave_approvers''
                             \<and> da_idx b = 1))
                         \<longrightarrow> leave_approver r = None))
               \<and> (\<not> truthy (emp_department e) \<longrightarrow> \<not> truthy (leave_approver r))))
       \<and> (\<not> truthy (emp_expense_approver e) \<longrightarrow>
            (\<exists>r. get_expense_approval_details d employee = Inr r
               \<and> (\<forall>dep. emp_department e = Some dep \<and> dep \<noteq> [] \<longrightarrow>
                    expense_approver r = get_value_Department_Approver d dep ''expense_approvers'' 1
                    \<and> (\<forall>a\<in>set (tabDepartment_Approver d).
                         da_parent a = dep \<and> da_parentfield a = ''expense_approvers'' \<and> da_idx a = 1
                         \<and> (\<forall>b\<in>set (tabDepartment_Approver d).
                               da_parent b = dep \<and> da_parentfield b = ''expense_approvers''
                               \<and> da_idx b = 1 \<longrightarrow> da_approver b = da_approver a)
                         \<longrightarrow> expense_approver r = Some (da_approver a))
                    \<and> ((\<forall>b\<in>set (tabDepartment_Approver d).
                          \<not> (da_parent b = dep \<and> da_parentfield b = ''expense_approvers''
                             \<and> da_idx b = 1))
                         \<longrightarrow> expense_approver r = None))
               \<and> (\<not> truthy (emp_department e) \<longrightarrow> \<not> truthy (expense_approver r))))"
proof (intro conjI impI)
  assume ov: "\<not> truthy (emp_leave_approver e)"
  from get_department_approvers_total [OF dept] obtain ls where
    "get_department_approvers d (emp_department e) ''leave_approvers'' = Inr ls" by blast
  from leave_details_Inr [OF emp this] obtain r where
    r: "get_leave_approval_details d employee = Inr r"
    and p: "leave_approver r =
               (case emp_department e of
                  None \<Rightarrow> emp_leave_approver e
                | Some dep \<Rightarrow>
                    if \<not> truthy (emp_leave_approver e) \<and> dep \<noteq> []
                    then get_value_Department_Approver d dep ''leave_approvers'' 1
                    else emp_leave_approver e)"
    by blast
  have a: "\<forall>dep. emp_department e = Some dep \<and> dep \<noteq> [] \<longrightarrow>
             leave_approver r = get_value_Department_Approver d dep ''leave_approvers'' 1"
    using p ov by simp
  have b: "\<not> truthy (emp_department e) \<longrightarrow> \<not> truthy (leave_approver r)"
    using p ov by (cases "emp_department e") (simp_all add: truthy_def)
  show "\<exists>r. get_leave_approval_details d employee = Inr r
               \<and> (\<forall>dep. emp_department e = Some dep \<and> dep \<noteq> [] \<longrightarrow>
                    leave_approver r = get_value_Department_Approver d dep ''leave_approvers'' 1
                    \<and> (\<forall>a\<in>set (tabDepartment_Approver d).
                         da_parent a = dep \<and> da_parentfield a = ''leave_approvers'' \<and> da_idx a = 1
                         \<and> (\<forall>b\<in>set (tabDepartment_Approver d).
                               da_parent b = dep \<and> da_parentfield b = ''leave_approvers''
                               \<and> da_idx b = 1 \<longrightarrow> da_approver b = da_approver a)
                         \<longrightarrow> leave_approver r = Some (da_approver a))
                    \<and> ((\<forall>b\<in>set (tabDepartment_Approver d).
                          \<not> (da_parent b = dep \<and> da_parentfield b = ''leave_approvers''
                             \<and> da_idx b = 1))
                         \<longrightarrow> leave_approver r = None))
               \<and> (\<not> truthy (emp_department e) \<longrightarrow> \<not> truthy (leave_approver r))"
  proof (intro exI [of _ r] conjI allI impI ballI)
    show "get_leave_approval_details d employee = Inr r" by (rule r)
  next
    fix dep assume "emp_department e = Some dep \<and> dep \<noteq> []"
    with a show "leave_approver r = get_value_Department_Approver d dep ''leave_approvers'' 1"
      by blast
  next
    fix dep x
    assume dep: "emp_department e = Some dep \<and> dep \<noteq> []"
       and x: "x \<in> set (tabDepartment_Approver d)"
       and key: "da_parent x = dep \<and> da_parentfield x = ''leave_approvers'' \<and> da_idx x = 1
                 \<and> (\<forall>b\<in>set (tabDepartment_Approver d).
                       da_parent b = dep \<and> da_parentfield b = ''leave_approvers''
                       \<and> da_idx b = 1 \<longrightarrow> da_approver b = da_approver x)"
    from key have "get_value_Department_Approver d dep ''leave_approvers'' 1 = Some (da_approver x)"
      by (intro get_value_Department_Approver_unique [OF x]) simp_all
    with a dep show "leave_approver r = Some (da_approver x)" by simp
  next
    fix dep
    assume dep: "emp_department e = Some dep \<and> dep \<noteq> []"
       and no: "\<forall>b\<in>set (tabDepartment_Approver d).
                  \<not> (da_parent b = dep \<and> da_parentfield b = ''leave_approvers'' \<and> da_idx b = 1)"
    from no have "get_value_Department_Approver d dep ''leave_approvers'' 1 = None"
      by (rule get_value_Department_Approver_none)
    with a dep show "leave_approver r = None" by simp
  next
    assume "\<not> truthy (emp_department e)"
    with b show "\<not> truthy (leave_approver r)" by blast
  qed
next
  assume ov: "\<not> truthy (emp_expense_approver e)"
  from get_department_approvers_total [OF dept] obtain xs where
    "get_department_approvers d (emp_department e) ''expense_approvers'' = Inr xs" by blast
  from expense_details_Inr [OF emp this] obtain r where
    r: "get_expense_approval_details d employee = Inr r"
    and p: "expense_approver r =
               (case emp_department e of
                  None \<Rightarrow> emp_expense_approver e
                | Some dep \<Rightarrow>
                    if \<not> truthy (emp_expense_approver e) \<and> dep \<noteq> []
                    then get_value_Department_Approver d dep ''expense_approvers'' 1
                    else emp_expense_approver e)"
    by blast
  have a: "\<forall>dep. emp_department e = Some dep \<and> dep \<noteq> [] \<longrightarrow>
             expense_approver r = get_value_Department_Approver d dep ''expense_approvers'' 1"
    using p ov by simp
  have b: "\<not> truthy (emp_department e) \<longrightarrow> \<not> truthy (expense_approver r)"
    using p ov by (cases "emp_department e") (simp_all add: truthy_def)
  show "\<exists>r. get_expense_approval_details d employee = Inr r
               \<and> (\<forall>dep. emp_department e = Some dep \<and> dep \<noteq> [] \<longrightarrow>
                    expense_approver r = get_value_Department_Approver d dep ''expense_approvers'' 1
                    \<and> (\<forall>a\<in>set (tabDepartment_Approver d).
                         da_parent a = dep \<and> da_parentfield a = ''expense_approvers'' \<and> da_idx a = 1
                         \<and> (\<forall>b\<in>set (tabDepartment_Approver d).
                               da_parent b = dep \<and> da_parentfield b = ''expense_approvers''
                               \<and> da_idx b = 1 \<longrightarrow> da_approver b = da_approver a)
                         \<longrightarrow> expense_approver r = Some (da_approver a))
                    \<and> ((\<forall>b\<in>set (tabDepartment_Approver d).
                          \<not> (da_parent b = dep \<and> da_parentfield b = ''expense_approvers''
                             \<and> da_idx b = 1))
                         \<longrightarrow> expense_approver r = None))
               \<and> (\<not> truthy (emp_department e) \<longrightarrow> \<not> truthy (expense_approver r))"
  proof (intro exI [of _ r] conjI allI impI ballI)
    show "get_expense_approval_details d employee = Inr r" by (rule r)
  next
    fix dep assume "emp_department e = Some dep \<and> dep \<noteq> []"
    with a show "expense_approver r = get_value_Department_Approver d dep ''expense_approvers'' 1"
      by blast
  next
    fix dep x
    assume dep: "emp_department e = Some dep \<and> dep \<noteq> []"
       and x: "x \<in> set (tabDepartment_Approver d)"
       and key: "da_parent x = dep \<and> da_parentfield x = ''expense_approvers'' \<and> da_idx x = 1
                 \<and> (\<forall>b\<in>set (tabDepartment_Approver d).
                       da_parent b = dep \<and> da_parentfield b = ''expense_approvers''
                       \<and> da_idx b = 1 \<longrightarrow> da_approver b = da_approver x)"
    from key have "get_value_Department_Approver d dep ''expense_approvers'' 1 = Some (da_approver x)"
      by (intro get_value_Department_Approver_unique [OF x]) simp_all
    with a dep show "expense_approver r = Some (da_approver x)" by simp
  next
    fix dep
    assume dep: "emp_department e = Some dep \<and> dep \<noteq> []"
       and no: "\<forall>b\<in>set (tabDepartment_Approver d).
                  \<not> (da_parent b = dep \<and> da_parentfield b = ''expense_approvers'' \<and> da_idx b = 1)"
    from no have "get_value_Department_Approver d dep ''expense_approvers'' 1 = None"
      by (rule get_value_Department_Approver_none)
    with a dep show "expense_approver r = None" by simp
  next
    assume "\<not> truthy (emp_department e)"
    with b show "\<not> truthy (expense_approver r)" by blast
  qed
qed

text \<open>
  At the example: \<open>EMP-1\<close> of \<open>Sales\<close> gets \<open>lead@x.io\<close> for both categories, and
  \<open>EMP-4\<close>, without a department, gets no leave approver.
\<close>

theorem C5_witness:
  "get_cached_Employee db_tree ''EMP-1'' = Inr (tabEmployee db_tree ! 0)
   \<and> \<not> truthy (emp_leave_approver (tabEmployee db_tree ! 0))
   \<and> \<not> truthy (emp_expense_approver (tabEmployee db_tree ! 0))
   \<and> emp_department (tabEmployee db_tree ! 0) = Some ''Sales''
   \<and> (\<exists>r. get_leave_approval_details db_tree ''EMP-1'' = Inr r
         \<and> leave_approver r = Some ''lead@x.io'')
   \<and> (\<exists>r. get_expense_approval_details db_tree ''EMP-1'' = Inr r
         \<and> expense_approver r = Some ''lead@x.io'')
   \<and> get_cached_Employee db_tree ''EMP-4'' = Inr (tabEmployee db_tree ! 3)
   \<and> \<not> truthy (emp_leave_approver (tabEmployee db_tree ! 3))
   \<and> \<not> truthy (emp_department (tabEmployee db_tree ! 3))
   \<and> (\<exists>r. get_leave_approval_details db_tree ''EMP-4'' = Inr r
         \<and> \<not> truthy (leave_approver r))"
proof -
  have h1: "get_cached_Employee db_tree ''EMP-1'' = Inr (tabEmployee db_tree ! 0)"
    by (simp add: db_tree_def get_cached_Employee_def)
  have dep: "emp_department (tabEmployee db_tree ! 0) = Some ''Sales''"
    by (simp add: db_tree_def)
  have h2: "\<forall>dep. emp_department (tabEmployee db_tree ! 0) = Some dep \<and> dep \<noteq> [] \<longrightarrow>
              (\<exists>q. get_value_Department db_tree dep = Some q \<and> departments db_tree q \<noteq> [])"
    by (simp add: db_tree_def get_value_Department_def departments_def)
  have ov: "\<not> truthy (emp_leave_approver (tabEmployee db_tree ! 0))"
    "\<not> truthy (emp_expense_approver (tabEmployee db_tree ! 0))"
    by (simp_all add: db_tree_def truthy_def)
  have v: "get_value_Department_Approver db_tree ''Sales'' ''leave_approvers'' 1
             = Some ''lead@x.io''"
    "get_value_Department_Approver db_tree ''Sales'' ''expense_approvers'' 1
             = Some ''lead@x.io''"
    by (simp_all add: db_tree_def get_value_Department_Approver_def)
  note L = C5_department_first_approver_is_primary [OF h1 h2, THEN conjunct1, THEN mp, OF ov(1)]
  note X = C5_department_first_approver_is_primary [OF h1 h2, THEN conjunct2, THEN mp, OF ov(2)]
  have nil: "''Sales'' \<noteq> []" by simp
  have l: "\<exists>r. get_leave_approval_details db_tree ''EMP-1'' = Inr r
         \<and> leave_approver r = Some ''lead@x.io''"
    apply (rule exE [OF L])
    apply (elim conjE)
    apply (drule spec [of _ "''Sales''"])
    apply (simp only: dep v nil simp_thms)
    apply (elim conjE)
    apply (rule exI)
    apply (rule conjI)
     apply (rule refl)
    apply assumption
    done
  have x: "\<exists>r. get_expense_approval_details db_tree ''EMP-1'' = Inr r
         \<and> expense_approver r = Some ''lead@x.io''"
    apply (rule exE [OF X])
    apply (elim conjE)
    apply (drule spec [of _ "''Sales''"])
    apply (simp only: dep v nil simp_thms)
    apply (elim conjE)
    apply (rule exI)
    apply (rule conjI)
     apply (rule refl)
    apply assumption
    done
  have k1: "get_cached_Employee db_tree ''EMP-4'' = Inr (tabEmployee db_tree ! 3)"
    by (simp add: db_tree_def get_cached_Employee_def)
  have k2: "\<forall>dep. emp_department (tabEmployee db_tree ! 3) = Some dep \<and> dep \<noteq> [] \<longrightarrow>
              (\<exists>q. get_value_Department db_tree dep = Some q \<and> departments db_tree q \<noteq> [])"
    by (simp add: db_tree_def)
  have k3: "\<not> truthy (emp_leave_approver (tabEmployee db_tree ! 3))"
    by (simp add: db_tree_def truthy_def)
  have k4: "\<not> truthy (emp_department (tabEmployee db_tree ! 3))"
    by (simp add: db_tree_def truthy_def)
  note N = C5_department_first_approver_is_primary [OF k1 k2, THEN conjunct1, THEN mp, OF k3]
  have n: "\<exists>r. get_leave_approval_details db_tree ''EMP-4'' = Inr r
         \<and> \<not> truthy (leave_approver r)"
    apply (rule exE [OF N])
    apply (elim conjE)
    apply (drule mp [OF _ k4])
    apply (rule exI)
    apply (rule conjI)
     apply assumption+
    done
  from h1 ov dep l x k1 k3 k4 n show ?thesis by blast
qed

section \<open>The expense claim summary\<close>

lemma sum_list_map_if:
  "sum_list (map (\<lambda>c. if P c then f c else (0::rat)) xs) = sum_list (map f (filter P xs))"
  by (induction xs) simp_all

lemma Sum_nonempty: "xs \<noteq> [] \<Longrightarrow> Sum (map f xs) = Some (sum_list (map f xs))"
  by (cases xs) (simp_all add: Sum_def)

lemma Sum_value: "(case Sum zs of None \<Rightarrow> 0 | Some v \<Rightarrow> v) = sum_list zs"
  by (cases zs) (simp_all add: Sum_def)

lemma pending_bucket:
  "sum_list (map pending_claims_case rows) =
   sum_list (map ec_total_claimed_amount (filter (\<lambda>c. ec_approval_status c = ''Draft'') rows))"
  unfolding pending_claims_case_def by (rule sum_list_map_if)

lemma approved_bucket:
  "sum_list (map approved_claims_case rows) =
   sum_list (map ec_total_sanctioned_amount
               (filter (\<lambda>c. ec_approval_status c = ''Approved'') rows))"
  unfolding approved_claims_case_def by (rule sum_list_map_if)

lemma rejected_bucket:
  "sum_list (map rejected_claims_case rows) =
   sum_list (map ec_total_sanctioned_amount
               (filter (\<lambda>c. ec_approval_status c = ''Rejected'') rows))"
  unfolding rejected_claims_case_def by (rule sum_list_map_if)

lemma summary_sums:
  "total_pending_amount (get_expense_claim_summary cd employee) =
     Sum (map pending_claims_case
            (filter (\<lambda>c. ec_docstatus c \<noteq> 2 \<and> ec_employee c = employee) (tabExpense_Claim cd)))"
  "total_approved_amount (get_expense_claim_summary cd employee) =
     Sum (map approved_claims_case
            (filter (\<lambda>c. ec_docstatus c \<noteq> 2 \<and> ec_employee c = employee) (tabExpense_Claim cd)))"
  "total_rejected_amount (get_expense_claim_summary cd employee) =
     Sum (map rejected_claims_case
            (filter (\<lambda>c. ec_docstatus c \<noteq> 2 \<and> ec_employee c = employee) (tabExpense_Claim cd)))"
  by (simp_all add: get_expense_claim_summary_def Let_def)

lemma other_status_zero:
  assumes "ec_approval_status c \<noteq> ''Draft''" "ec_approval_status c \<noteq> ''Approved''"
    "ec_approval_status c \<noteq> ''Rejected''"
  shows "pending_claims_case c = 0 \<and> approved_claims_case c = 0 \<and> rejected_claims_case c = 0"
  using assms
  by (simp add: pending_claims_case_def approved_claims_case_def rejected_claims_case_def)

lemma summary_excluded_row:
  assumes "tabExpense_Claim cd = xs @ c # ys"
      and "ec_docstatus c = 2 \<or> ec_employee c \<noteq> employee"
  shows "total_pending_amount (get_expense_claim_summary cd employee) =
           total_pending_amount
             (get_expense_claim_summary (cd\<lparr>tabExpense_Claim := xs @ ys\<rparr>) employee)"
    and "total_approved_amount (get_expense_claim_summary cd employee) =
           total_approved_amount
             (get_expense_claim_summary (cd\<lparr>tabExpense_Claim := xs @ ys\<rparr>) employee)"
    and "total_rejected_amount (get_expense_claim_summary cd employee) =
           total_rejected_amount
             (get_expense_claim_summary (cd\<lparr>tabExpense_Claim := xs @ ys\<rparr>) employee)"
proof -
  from assms have rows:
    "filter (\<lambda>c. ec_docstatus c \<noteq> 2 \<and> ec_employee c = employee) (tabExpense_Claim cd) =
     filter (\<lambda>c. ec_docstatus c \<noteq> 2 \<and> ec_employee c = employee) (xs @ ys)"
    by auto
  show "total_pending_amount (get_expense_claim_summary cd employee) =
           total_pending_amount
             (get_expense_claim_summary (cd\<lparr>tabExpense_Claim := xs @ ys\<rparr>) employee)"
    unfolding summary_sums rows by simp
  show "total_approved_amount (get_expense_claim_summary cd employee) =
           total_approved_amount
             (get_expense_claim_summary (cd\<lparr>tabExpense_Claim := xs @ ys\<rparr>) employee)"
    unfolding summary_sums rows by simp
  show "total_rejected_amount (get_expense_claim_summary cd employee) =
           total_rejected_amount
             (get_expense_claim_summary (cd\<lparr>tabExpense_Claim := xs @ ys\<rparr>) employee)"
    unfolding summary_sums rows by simp
qed

lemma summary_other_status_row:
  assumes tab: "tabExpense_Claim cd = xs @ c # ys"
      and own: "ec_docstatus c \<noteq> 2 \<and> ec_employee c = employee"
      and oth: "ec_approval_status c \<noteq> ''Draft''" "ec_approval_status c \<noteq> ''Approved''"
               "ec_approval_status c \<noteq> ''Rejected''"
  shows "total_pending_amount (get_expense_claim_summary cd employee) =
           Some (case total_pending_amount
                   (get_expense_claim_summary (cd\<lparr>tabExpense_Claim := xs @ ys\<rparr>) employee)
                 of None \<Rightarrow> 0 | Some v \<Rightarrow> v)"
    and "total_approved_amount (get_expense_claim_summary cd employee) =
           Some (case total_approved_amount
                   (get_expense_claim_summary (cd\<lparr>tabExpense_Claim := xs @ ys\<rparr>) employee)
                 of None \<Rightarrow> 0 | Some v \<Rightarrow> v)"
    and "total_rejected_amount (get_expense_claim_summary cd employee) =
           Some (case total_rejected_amount
                   (get_expense_claim_summary (cd\<lparr>tabExpense_Claim := xs @ ys\<rparr>) employee)
                 of None \<Rightarrow> 0 | Some v \<Rightarrow> v)"
proof -
  let ?R = "filter (\<lambda>c. ec_docstatus c \<noteq> 2 \<and> ec_employee c = employee)"
  from tab own have rows: "?R (tabExpense_Claim cd) = ?R xs @ c # ?R ys"
    by simp
  then have ne: "?R (tabExpense_Claim cd) \<noteq> []" by simp
  have rows': "?R (tabExpense_Claim (cd\<lparr>tabExpense_Claim := xs @ ys\<rparr>)) = ?R xs @ ?R ys"
    by simp
  note z = other_status_zero [OF oth]
  show "total_pending_amount (get_expense_claim_summary cd employee) =
           Some (case total_pending_amount
                   (get_expense_claim_summary (cd\<lparr>tabExpense_Claim := xs @ ys\<rparr>) employee)
                 of None \<Rightarrow> 0 | Some v \<Rightarrow> v)"
    unfolding summary_sums Sum_value Sum_nonempty [OF ne] unfolding rows rows' using z by simp
  show "total_approved_amount (get_expense_claim_summary cd employee) =
           Some (case total_approved_amount
                   (get_expense_claim_summary (cd\<lparr>tabExpense_Claim := xs @ ys\<rparr>) employee)
                 of None \<Rightarrow> 0 | Some v \<Rightarrow> v)"
    unfolding summary_sums Sum_value Sum_nonempty [OF ne] unfolding rows rows' using z by simp
  show "total_rejected_amount (get_expense_claim_summary cd employee) =
           Some (case total_rejected_amount
                   (get_expense_claim_summary (cd\<lparr>tabExpense_Claim := xs @ ys\<rparr>) employee)
                 of None \<Rightarrow> 0 | Some v \<Rightarrow> v)"
    unfolding summary_sums Sum_value Sum_nonempty [OF ne] unfolding rows rows' using z by simp
qed

text \<open>
  Claim C6, as the code has it. The three sums are taken over the claims of the
  employee whose \<^verbatim>\<open>docstatus\<close> is not 2: a cancelled claim and a claim of another
  employee change none of them. The pending sum is the sum of
  \<^verbatim>\<open>total_claimed_amount\<close> of the claims whose approval status is Draft; the approved
  and the rejected sum are the sums of \<^verbatim>\<open>total_sanctioned_amount\<close> of those whose
  status is Approved and Rejected; all three are NULL when the employee has no such
  claim. Three claims Draft, Approved and Rejected whose claimed, sanctioned and
  sanctioned amounts are 100, 200 and 300 give the sums 100, 200 and 300, and a claim
  with any other status adds 0 to each of the three.
\<close>

theorem C6_summary_buckets_by_status:
  "(filter (\<lambda>c. ec_docstatus c \<noteq> 2 \<and> ec_employee c = employee) (tabExpense_Claim cd) \<noteq> [] \<longrightarrow>
      total_pending_amount (get_expense_claim_summary cd employee) =
        Some (sum_list (map ec_total_claimed_amount
               (filter (\<lambda>c. ec_approval_status c = ''Draft'')
                  (filter (\<lambda>c. ec_docstatus c \<noteq> 2 \<and> ec_employee c = employee)
                     (tabExpense_Claim cd)))))
    \<and> total_approved_amount (get_expense_claim_summary cd employee) =
        Some (sum_list (map ec_total_sanctioned_amount
               (filter (\<lambda>c. ec_approval_status c = ''Approved'')
                  (filter (\<lambda>c. ec_docstatus c \<noteq> 2 \<and> ec_employee c = employee)
                     (tabExpense_Claim cd)))))
    \<and> total_rejected_amount (get_expense_claim_summary cd employee) =
        Some (sum_list (map ec_total_sanctioned_amount
               (filter (\<lambda>c. ec_approval_status c = ''Rejected'')
                  (filter (\<lambda>c. ec_docstatus c \<noteq> 2 \<and> ec_employee c = employee)
                     (tabExpense_Claim cd))))))
   \<and> (filter (\<lambda>c. ec_docstatus c \<noteq> 2 \<and> ec_employee c = employee) (tabExpense_Claim cd) = [] \<longrightarrow>
      total_pending_amount (get_expense_claim_summary cd employee) = None
    \<and> total_approved_amount (get_expense_claim_summary cd employee) = None
    \<and> total_rejected_amount (get_expense_claim_summary cd employee) = None)
   \<and> (\<forall>c1 c2 c3.
        filter (\<lambda>c. ec_docstatus c \<noteq> 2 \<and> ec_employee c = employee) (tabExpense_Claim cd)
          = [c1, c2, c3]
        \<and> ec_approval_status c1 = ''Draft'' \<and> ec_total_claimed_amount c1 = 100
        \<and> ec_approval_status c2 = ''Approved'' \<and> ec_total_sanctioned_amount c2 = 200
        \<and> ec_approval_status c3 = ''Rejected'' \<and> ec_total_sanctioned_amount c3 = 300
        \<longrightarrow> total_pending_amount (get_expense_claim_summary cd employee) = Some 100
          \<and> total_approved_amount (get_expense_claim_summary cd employee) = Some 200
          \<and> total_rejected_amount (get_expense_claim_summary cd employee) = Some 300)
   \<and> (\<forall>xs c ys.
        tabExpense_Claim cd = xs @ c # ys
        \<and> ec_docstatus c \<noteq> 2 \<and> ec_employee c = employee
        \<and> ec_approval_status c \<noteq> ''Draft'' \<and> ec_approval_status c \<noteq> ''Approved''
        \<and> ec_approval_status c \<noteq> ''Rejected''
        \<longrightarrow> total_pending_amount (get_expense_claim_summary cd employee) =
              Some (case total_pending_amount
                      (get_expense_claim_summary (cd\<lparr>tabExpense_Claim := xs @ ys\<rparr>) employee)
                    of None \<Rightarrow> 0 | Some v \<Rightarrow> v)
          \<and> total_approved_amount (get_expense_claim_summary cd employee) =
              Some (case total_approved_amount
                      (get_expense_claim_summary (cd\<lparr>tabExpense_Claim := xs @ ys\<rparr>) employee)
                    of None \<Rightarrow> 0 | Some v \<Rightarrow> v)
          \<and> total_rejected_amount (get_expense_claim_summary cd employee) =
              Some (case total_rejected_amount
                      (get_expense_claim_summary (cd\<lparr>tabExpense_Claim := xs @ ys\<rparr>) employee)
                    of None \<Rightarrow> 0 | Some v \<Rightarrow> v))
   \<and> (\<forall>xs c ys.
        tabExpense_Claim cd = xs @ c # ys
        \<and> (ec_docstatus c = 2 \<or> ec_employee c \<noteq> employee)
        \<longrightarrow> total_pending_amount (get_expense_claim_summary cd employee) =
              total_pending_amount
                (get_expense_claim_summary (cd\<lparr>tabExpense_Claim := xs @ ys\<rparr>) employee)
          \<and> total_approved_amount (get_expense_claim_summary cd employee) =
              total_approved_amount
                (get_expense_claim_summary (cd\<lparr>tabExpense_Claim := xs @ ys\<rparr>) employee)
          \<and> total_rejected_amount (get_expense_claim_summary cd employee) =
              total_rejected_amount
                (get_expense_claim_summary (cd\<lparr>tabExpense_Claim := xs @ ys\<rparr>) employee))"
proof (intro conjI impI allI)
  let ?R = "filter (\<lambda>c. ec_docstatus c \<noteq> 2 \<and> ec_employee c = employee)"
  assume ne: "?R (tabExpense_Claim cd) \<noteq> []"
  show "total_pending_amount (get_expense_claim_summary cd employee) =
        Some (sum_list (map ec_total_claimed_amount
               (filter (\<lambda>c. ec_approval_status c = ''Draft'') (?R (tabExpense_Claim cd)))))"
    unfolding summary_sums Sum_nonempty [OF ne] pending_bucket ..
  show "total_approved_amount (get_expense_claim_summary cd employee) =
        Some (sum_list (map ec_total_sanctioned_amount
               (filter (\<lambda>c. ec_approval_status c = ''Approved'') (?R (tabExpense_Claim cd)))))"
    unfolding summary_sums Sum_nonempty [OF ne] approved_bucket ..
  show "total_rejected_amount (get_expense_claim_summary cd employee) =
        Some (sum_list (map ec_total_sanctioned_amount
               (filter (\<lambda>c. ec_approval_status c = ''Rejected'') (?R (tabExpense_Claim cd)))))"
    unfolding summary_sums Sum_nonempty [OF ne] rejected_bucket ..
next
  let ?R = "filter (\<lambda>c. ec_docstatus c \<noteq> 2 \<and> ec_employee c = employee)"
  assume e: "?R (tabExpense_Claim cd) = []"
  show "total_pending_amount (get_expense_claim_summary cd employee) = None"
    unfolding summary_sums e by (simp add: Sum_def)
  show "total_approved_amount (get_expense_claim_summary cd employee) = None"
    unfolding summary_sums e by (simp add: Sum_def)
  show "total_rejected_amount (get_expense_claim_summary cd employee) = None"
    unfolding summary_sums e by (simp add: Sum_def)
next
  fix c1 c2 c3
  let ?R = "filter (\<lambda>c. ec_docstatus c \<noteq> 2 \<and> ec_employee c = employee)"
  assume a: "?R (tabExpense_Claim cd) = [c1, c2, c3]
        \<and> ec_approval_status c1 = ''Draft'' \<and> ec_total_claimed_amount c1 = 100
        \<and> ec_approval_status c2 = ''Approved'' \<and> ec_total_sanctioned_amount c2 = 200
        \<and> ec_approval_status c3 = ''Rejected'' \<and> ec_total_sanctioned_amount c3 = 300"
  then have rows: "?R (tabExpense_Claim cd) = [c1, c2, c3]" by (rule conjunct1)
  show "total_pending_amount (get_expense_claim_summary cd employee) = Some 100"
    unfolding summary_sums rows using a by (simp add: Sum_def pending_claims_case_def)
  show "total_approved_amount (get_expense_claim_summary cd employee) = Some 200"
    unfolding summary_sums rows using a by (simp add: Sum_def approved_claims_case_def)
  show "total_rejected_amount (get_expense_claim_summary cd employee) = Some 300"
    unfolding summary_sums rows using a by (simp add: Sum_def rejected_claims_case_def)
next
  fix xs c ys
  assume a: "tabExpense_Claim cd = xs @ c # ys
        \<and> ec_docstatus c \<noteq> 2 \<and> ec_employee c = employee
        \<and> ec_approval_status c \<noteq> ''Draft'' \<and> ec_approval_status c \<noteq> ''Approved''
        \<and> ec_approval_status c \<noteq> ''Rejected''"
  then have tab: "tabExpense_Claim cd = xs @ c # ys"
    and own: "ec_docstatus c \<noteq> 2 \<and> ec_employee c = employee"
    and oth: "ec_approval_status c \<noteq> ''Draft''" "ec_approval_status c \<noteq> ''Approved''"
             "ec_approval_status c \<noteq> ''Rejected''"
    by simp_all
  show "total_pending_amount (get_expense_claim_summary cd employee) =
              Some (case total_pending_amount
                      (get_expense_claim_summary (cd\<lparr>tabExpense_Claim := xs @ ys\<rparr>) employee)
                    of None \<Rightarrow> 0 | Some v \<Rightarrow> v)"
    by (rule summary_other_status_row [OF tab own oth])
  show "total_approved_amount (get_expense_claim_summary cd employee) =
              Some (case total_approved_amount
                      (get_expense_claim_summary (cd\<lparr>tabExpense_Claim := xs @ ys\<rparr>) employee)
                    of None \<Rightarrow> 0 | Some v \<Rightarrow> v)"
    by (rule summary_other_status_row [OF tab own oth])
  show "total_rejected_amount (get_expense_claim_summary cd employee) =
              Some (case total_rejected_amount
                      (get_expense_claim_summary (cd\<lparr>tabExpense_Claim := xs @ ys\<rparr>) employee)
                    of None \<Rightarrow> 0 | Some v \<Rightarrow> v)"
    by (rule summary_other_status_row [OF tab own oth])
next
  fix xs c ys
  assume a: "tabExpense_Claim cd = xs @ c # ys
        \<and> (ec_docstatus c = 2 \<or> ec_employee c \<noteq> employee)"
  then have tab: "tabExpense_Claim cd = xs @ c # ys"
    and ex: "ec_docstatus c = 2 \<or> ec_employee c \<noteq> employee"
    by simp_all
  show "total_pending_amount (get_expense_claim_summary cd employee) =
              total_pending_amount
                (get_expense_claim_summary (cd\<lparr>tabExpense_Claim := xs @ ys\<rparr>) employee)"
    by (rule summary_excluded_row [OF tab ex])
  show "total_approved_amount (get_expense_claim_summary cd employee) =
              total_approved_amount
                (get_expense_claim_summary (cd\<lparr>tabExpense_Claim := xs @ ys\<rparr>) employee)"
    by (rule summary_excluded_row [OF tab ex])
  show "total_rejected_amount (get_expense_claim_summary cd employee) =
              total_rejected_amount
                (get_expense_claim_summary (cd\<lparr>tabExpense_Claim := xs @ ys\<rparr>) employee)"
    by (rule summary_excluded_row [OF tab ex])
qed

text \<open>
  At the example: beside a cancelled claim and a claim of another employee, the
  three claims give 100, 200 and 300, and still do with a further claim that is on
  hold.
\<close>

theorem C6_witness:
  "filter (\<lambda>c. ec_docstatus c \<noteq> 2 \<and> ec_employee c = ''EMP-1'') (tabExpense_Claim claims_mixed)
     = tabExpense_Claim claims_ex
   \<and> length (tabExpense_Claim claims_mixed) = 5
   \<and> total_pending_amount (get_expense_claim_summary claims_mixed ''EMP-1'') = Some 100
   \<and> total_approved_amount (get_expense_claim_summary claims_mixed ''EMP-1'') = Some 200
   \<and> total_rejected_amount (get_expense_claim_summary claims_mixed ''EMP-1'') = Some 300
   \<and> total_pending_amount
        (get_expense_claim_summary
           (claims_mixed\<lparr>tabExpense_Claim := tabExpense_Claim claims_mixed @ [claim_on_hold]\<rparr>)
           ''EMP-1'') = Some 100
   \<and> total_approved_amount
        (get_expense_claim_summary
           (claims_mixed\<lparr>tabExpense_Claim := tabExpense_Claim claims_mixed @ [claim_on_hold]\<rparr>)
           ''EMP-1'') = Some 200
   \<and> total_rejected_amount
        (get_expense_claim_summary
           (claims_mixed\<lparr>tabExpense_Claim := tabExpense_Claim claims_mixed @ [claim_on_hold]\<rparr>)
           ''EMP-1'') = Some 300
   \<and> total_pending_amount (get_expense_claim_summary claims_mixed ''EMP-1'')
       = total_pending_amount (get_expense_claim_summary claims_ex ''EMP-1'')"
proof -
  have rows: "filter (\<lambda>c. ec_docstatus c \<noteq> 2 \<and> ec_employee c = ''EMP-1'')
                (tabExpense_Claim claims_mixed) = tabExpense_Claim claims_ex"
    by (simp add: claims_mixed_def claims_ex_def claim_cancelled_def claim_foreign_def)
  have len: "length (tabExpense_Claim claims_mixed) = 5"
    by (simp add: claims_mixed_def claims_ex_def)
  have h: "filter (\<lambda>c. ec_docstatus c \<noteq> 2 \<and> ec_employee c = ''EMP-1'')
             (tabExpense_Claim claims_mixed) =
             [tabExpense_Claim claims_ex ! 0, tabExpense_Claim claims_ex ! 1,
              tabExpense_Claim claims_ex ! 2]
        \<and> ec_approval_status (tabExpense_Claim claims_ex ! 0) = ''Draft''
        \<and> ec_total_claimed_amount (tabExpense_Claim claims_ex ! 0) = 100
        \<and> ec_approval_status (tabExpense_Claim claims_ex ! 1) = ''Approved''
        \<and> ec_total_sanctioned_amount (tabExpense_Claim claims_ex ! 1) = 200
        \<and> ec_approval_status (tabExpense_Claim claims_ex ! 2) = ''Rejected''
        \<and> ec_total_sanctioned_amount (tabExpense_Claim claims_ex ! 2) = 300"
    unfolding rows by (simp add: claims_ex_def)
  note ex = C6_summary_buckets_by_status [of "''EMP-1''" claims_mixed,
      THEN conjunct2, THEN conjunct2, THEN conjunct1,
      THEN spec, THEN spec, THEN spec, THEN mp, OF h]
  let ?cd = "claims_mixed\<lparr>tabExpense_Claim := tabExpense_Claim claims_mixed @ [claim_on_hold]\<rparr>"
  have g: "tabExpense_Claim ?cd = tabExpense_Claim claims_mixed @ claim_on_hold # []
        \<and> ec_docstatus claim_on_hold \<noteq> 2 \<and> ec_employee claim_on_hold = ''EMP-1''
        \<and> ec_approval_status claim_on_hold \<noteq> ''Draft''
        \<and> ec_approval_status claim_on_hold \<noteq> ''Approved''
        \<and> ec_approval_status claim_on_hold \<noteq> ''Rejected''"
    by (simp add: claim_on_hold_def)
  note oth = C6_summary_buckets_by_status [of "''EMP-1''" ?cd,
      THEN conjunct2, THEN conjunct2, THEN conjunct2, THEN conjunct1,
      THEN spec, THEN spec, THEN spec, THEN mp, OF g]
  have same: "?cd\<lparr>tabExpense_Claim := tabExpense_Claim claims_mixed @ []\<rparr> = claims_mixed"
    by simp
  from oth have o: "total_pending_amount (get_expense_claim_summary ?cd ''EMP-1'') = Some 100
     \<and> total_approved_amount (get_expense_claim_summary ?cd ''EMP-1'') = Some 200
     \<and> total_rejected_amount (get_expense_claim_summary ?cd ''EMP-1'') = Some 300"
    unfolding same using ex by simp
  have c: "tabExpense_Claim claims_mixed = [] @ claim_cancelled
             # (tabExpense_Claim claims_ex @ [claim_foreign])
        \<and> (ec_docstatus claim_cancelled = 2 \<or> ec_employee claim_cancelled \<noteq> ''EMP-1'')"
    by (simp add: claims_mixed_def claim_cancelled_def)
  note drop1 = C6_summary_buckets_by_status [of "''EMP-1''" claims_mixed,
      THEN conjunct2, THEN conjunct2, THEN conjunct2, THEN conjunct2,
      THEN spec, THEN spec, THEN spec, THEN mp, OF c, THEN conjunct1]
  let ?ce = "claims_mixed\<lparr>tabExpense_Claim :=
               [] @ tabExpense_Claim claims_ex @ [claim_foreign]\<rparr>"
  have f: "tabExpense_Claim ?ce = tabExpense_Claim claims_ex @ claim_foreign # []
        \<and> (ec_docstatus claim_foreign = 2 \<or> ec_employee claim_foreign \<noteq> ''EMP-1'')"
    by (simp add: claim_foreign_def)
  note drop2 = C6_summary_buckets_by_status [of "''EMP-1''" ?ce,
      THEN conjunct2, THEN conjunct2, THEN conjunct2, THEN conjunct2,
      THEN spec, THEN spec, THEN spec, THEN mp, OF f, THEN conjunct1]
  have orig: "?ce\<lparr>tabExpense_Claim := tabExpense_Claim claims_ex @ []\<rparr> = claims_ex"
    by (simp add: claims_mixed_def)
  from drop1 drop2 have d: "total_pending_amount (get_expense_claim_summary claims_mixed ''EMP-1'')
       = total_pending_amount (get_expense_claim_summary claims_ex ''EMP-1'')"
    unfolding orig by simp
  from rows len ex o d show ?thesis by (intro conjI) simp_all
qed

text \<open>
  Claim C6 as stated fails for the amounts that were claimed: claims Draft,
  Approved and Rejected with claimed amounts 100, 200 and 300, of which 150 of the
  approved and nothing of the rejected one was sanctioned, give the sums 100, 150
  and 0.
\<close>

theorem C6_counterexample:
  "map ec_approval_status (tabExpense_Claim claims_partial) = [''Draft'', ''Approved'', ''Rejected'']
   \<and> map ec_total_claimed_amount (tabExpense_Claim claims_partial) = [100, 200, 300]
   \<and> map ec_employee (tabExpense_Claim claims_partial) = [''EMP-1'', ''EMP-1'', ''EMP-1'']
   \<and> map ec_docstatus (tabExpense_Claim claims_partial) = [0, 1, 1]
   \<and> total_pending_amount (get_expense_claim_summary claims_partial ''EMP-1'') = Some 100
   \<and> total_approved_amount (get_expense_claim_summary claims_partial ''EMP-1'') = Some 150
   \<and> total_rejected_amount (get_expense_claim_summary claims_partial ''EMP-1'') = Some 0"
  by (simp add: claims_partial_def get_expense_claim_summary_def Sum_def Let_def
        pending_claims_case_def approved_claims_case_def rejected_claims_case_def)

section \<open>Flags of listed leave applications\<close>

lemmas leave_defs =
  get_employee_leave_applications_def get_team_leave_applications_def
  get_leave_applications_def get_list_Leave_Application_def

lemma get_leave_applications_flags:
  "row \<in> set (get_leave_applications f tab filters) \<Longrightarrow>
   can_cancel row = has_permission f ''Leave Application'' ''cancel'' None (session_user f)
   \<and> can_delete row = has_permission f ''Leave Application'' ''delete'' None (session_user f)
   \<and> lr_fields row \<in> set tab \<and> filters (lr_fields row)"
  by (auto simp: get_leave_applications_def get_list_Leave_Application_def)

lemma map_constant:
  "\<forall>x\<in>set xs. f x = c \<Longrightarrow> map f xs = replicate (length xs) c"
  by (induction xs) simp_all

text \<open>
  Claim C8, as the code has it. For every leave application that the listing
  endpoints return, \<^verbatim>\<open>can_cancel\<close> and \<^verbatim>\<open>can_delete\<close> are the result of the permission
  check of the current session user on the doctype Leave Application, asked without a
  document: whether the viewer may cancel, respectively delete, leave applications at
  all. All returned records carry the same two values.
\<close>

theorem C8_flags_are_doctype_permissions:
  "(\<forall>row\<in>set (get_leave_applications f tab filters).
      can_cancel row = has_permission f ''Leave Application'' ''cancel'' None (session_user f)
      \<and> can_delete row = has_permission f ''Leave Application'' ''delete'' None (session_user f))
   \<and> (\<forall>row\<in>set (get_employee_leave_applications f tab employee).
      can_cancel row = has_permission f ''Leave Application'' ''cancel'' None (session_user f)
      \<and> can_delete row = has_permission f ''Leave Application'' ''delete'' None (session_user f))
   \<and> (\<forall>row\<in>set (get_team_leave_applications f tab employee user_id).
      can_cancel row = has_permission f ''Leave Application'' ''cancel'' None (session_user f)
      \<and> can_delete row = has_permission f ''Leave Application'' ''delete'' None (session_user f))"
  unfolding get_employee_leave_applications_def get_team_leave_applications_def
  by (intro conjI ballI) (simp_all add: get_leave_applications_flags)

text \<open>
  At the example: both listed applications of \<open>EMP-1\<close> carry the doctype's flags.
\<close>

theorem C8_witness:
  "length (get_employee_leave_applications frappe_ex tabLeave_Application_ex ''EMP-1'') = 2
   \<and> map can_cancel (get_employee_leave_applications frappe_ex tabLeave_Application_ex ''EMP-1'')
       = [True, True]
   \<and> map can_delete (get_employee_leave_applications frappe_ex tabLeave_Application_ex ''EMP-1'')
       = [True, True]"
proof -
  let ?rows = "get_employee_leave_applications frappe_ex tabLeave_Application_ex ''EMP-1''"
  have len: "length ?rows = 2"
    by (simp add: leave_defs frappe_ex_def tabLeave_Application_ex_def)
  have p: "has_permission frappe_ex ''Leave Application'' ''cancel'' None (session_user frappe_ex)"
    "has_permission frappe_ex ''Leave Application'' ''delete'' None (session_user frappe_ex)"
    by (simp_all add: frappe_ex_def)
  from C8_flags_are_doctype_permissions [of frappe_ex tabLeave_Application_ex _ "''EMP-1''"]
  have "\<forall>row\<in>set ?rows.
      can_cancel row = has_permission frappe_ex ''Leave Application'' ''cancel'' None
                         (session_user frappe_ex)
      \<and> can_delete row = has_permission frappe_ex ''Leave Application'' ''delete'' None
                         (session_user frappe_ex)"
    by (rule conjunct2 [THEN conjunct1])
  with p have "\<forall>row\<in>set ?rows. can_cancel row = True" "\<forall>row\<in>set ?rows. can_delete row = True"
    by simp_all
  then have "map can_cancel ?rows = replicate (length ?rows) True"
    "map can_delete ?rows = replicate (length ?rows) True"
    by (simp_all only: map_constant)
  with len show ?thesis by (simp add: numeral_2_eq_2)
qed

text \<open>
  Claim C8 as stated fails: the viewer may neither cancel nor delete the application
  \<open>LA-1\<close> itself, and it is listed with both flags set.
\<close>

theorem C8_counterexample:
  "get_employee_leave_applications frappe_ex tabLeave_Application_ex ''EMP-1'' =
     [\<lparr>lr_fields = tabLeave_Application_ex ! 1, can_cancel = True, can_delete = True\<rparr>,
      \<lparr>lr_fields = tabLeave_Application_ex ! 0, can_cancel = True, can_delete = True\<rparr>]
   \<and> \<not> has_permission frappe_ex ''Leave Application'' ''cancel''
         (Some (tabLeave_Application_ex ! 0)) (session_user frappe_ex)
   \<and> \<not> has_permission frappe_ex ''Leave Application'' ''delete''
         (Some (tabLeave_Application_ex ! 0)) (session_user frappe_ex)"
  by (simp add: leave_defs frappe_ex_def tabLeave_Application_ex_def)

section \<open>Properties of the file upload\<close>

lemma b64decode_hi: "b64decode ''aGk='' = Inr [104, 105]"
  by (simp add: b64decode_def table_a2b_base64_def)

lemma b64decode_pdf: "b64decode ''JVBERi0='' = Inr [37, 80, 68, 70, 45]"
  by (simp add: b64decode_def table_a2b_base64_def)

lemma guess_exe: "guess_type_ex ''setup.exe'' \<notin> set (map Some ALLOWED_MIMETYPES_ex)"
  by (simp add: guess_type_ex_def splitext_def ascii_lower_def suffix_map_def
        encodings_map_def types_map_ex_def ALLOWED_MIMETYPES_ex_def)

lemma guess_pdf: "guess_type_ex ''bill.pdf'' \<in> set (map Some ALLOWED_MIMETYPES_ex)"
  by (simp add: guess_type_ex_def splitext_def ascii_lower_def suffix_map_def
        encodings_map_def types_map_ex_def ALLOWED_MIMETYPES_ex_def)

text \<open>
  Claim C7, as the code has it. An upload whose file name maps to a type outside
  the allow-list creates no record and returns an error: the user-facing one whenever
  the content decodes, and the decoder's own otherwise, since decoding comes first.
  An upload with an allowed file name and content that decodes adds a File record
  whose content is the decoded bytes. Content that does not decode ends in the
  decoder's error and no record, whatever the file name.
\<close>

theorem C7_upload_allow_list:
  "(guess_type filename \<notin> set (map Some allowed) \<longrightarrow>
      (\<exists>err. upload_base64_file guess_type allowed tabFile content filename dt dn fieldname
               = (Inl err, tabFile))
      \<and> (\<forall>bytes. b64decode content = Inr bytes \<longrightarrow>
            upload_base64_file guess_type allowed tabFile content filename dt dn fieldname
              = (Inl (ValidationError
                   ''You can only upload JPG, PNG, PDF, TXT or Microsoft documents.''),
                 tabFile)))
   \<and> (\<forall>bytes. guess_type filename \<in> set (map Some allowed) \<and> b64decode content = Inr bytes \<longrightarrow>
         upload_base64_file guess_type allowed tabFile content filename dt dn fieldname
           = (Inr \<lparr>file_attached_to_doctype = dt, file_attached_to_name = dn,
                   file_attached_to_field = fieldname, file_folder = ''Home'',
                   file_file_name = filename, file_content = bytes, file_is_private = 1\<rparr>,
              tabFile @ [\<lparr>file_attached_to_doctype = dt, file_attached_to_name = dn,
                   file_attached_to_field = fieldname, file_folder = ''Home'',
                   file_file_name = filename, file_content = bytes, file_is_private = 1\<rparr>]))
   \<and> (\<forall>err. b64decode content = Inl err \<longrightarrow>
         upload_base64_file guess_type allowed tabFile content filename dt dn fieldname
           = (Inl err, tabFile))"
proof (intro conjI impI allI)
  assume no: "guess_type filename \<notin> set (map Some allowed)"
  show "\<exists>err. upload_base64_file guess_type allowed tabFile content filename dt dn fieldname
               = (Inl err, tabFile)"
  proof (cases "b64decode content")
    case (Inl err)
    then show ?thesis by (simp add: upload_base64_file_def)
  next
    case (Inr bytes)
    with no show ?thesis by (simp add: upload_base64_file_def)
  qed
next
  fix bytes
  assume "guess_type filename \<notin> set (map Some allowed)" "b64decode content = Inr bytes"
  then show "upload_base64_file guess_type allowed tabFile content filename dt dn fieldname
              = (Inl (ValidationError
                   ''You can only upload JPG, PNG, PDF, TXT or Microsoft documents.''),
                 tabFile)"
    by (simp add: upload_base64_file_def)
next
  fix bytes
  assume "guess_type filename \<in> set (map Some allowed) \<and> b64decode content = Inr bytes"
  then show "upload_base64_file guess_type allowed tabFile content filename dt dn fieldname
           = (Inr \<lparr>file_attached_to_doctype = dt, file_attached_to_name = dn,
                   file_attached_to_field = fieldname, file_folder = ''Home'',
                   file_file_name = filename, file_content = bytes, file_is_private = 1\<rparr>,
              tabFile @ [\<lparr>file_attached_to_doctype = dt, file_attached_to_name = dn,
                   file_attached_to_field = fieldname, file_folder = ''Home'',
                   file_file_name = filename, file_content = bytes, file_is_private = 1\<rparr>])"
    by (simp add: upload_base64_file_def Let_def)
next
  fix err
  assume "b64decode content = Inl err"
  then show "upload_base64_file guess_type allowed tabFile content filename dt dn fieldname
           = (Inl err, tabFile)"
    by (simp add: upload_base64_file_def)
qed

text \<open>
  At the example: \<open>setup.exe\<close> is refused, \<open>bill.pdf\<close> is stored with the five
  decoded bytes.
\<close>

theorem C7_witness:
  "guess_type_ex ''setup.exe'' \<notin> set (map Some ALLOWED_MIMETYPES_ex)
   \<and> b64decode ''aGk='' = Inr [104, 105]
   \<and> upload_base64_file guess_type_ex ALLOWED_MIMETYPES_ex [] ''aGk='' ''setup.exe''
        None None None
       = (Inl (ValidationError
                 ''You can only upload JPG, PNG, PDF, TXT or Microsoft documents.''), [])
   \<and> guess_type_ex ''bill.pdf'' \<in> set (map Some ALLOWED_MIMETYPES_ex)
   \<and> b64decode ''JVBERi0='' = Inr [37, 80, 68, 70, 45]
   \<and> upload_base64_file guess_type_ex ALLOWED_MIMETYPES_ex [] ''JVBERi0='' ''bill.pdf''
        (Some ''Expense Claim'') (Some ''EXP-1'') None
       = (Inr \<lparr>file_attached_to_doctype = Some ''Expense Claim'',
               file_attached_to_name = Some ''EXP-1'', file_attached_to_field = None,
               file_folder = ''Home'', file_file_name = ''bill.pdf'',
               file_content = [37, 80, 68, 70, 45], file_is_private = 1\<rparr>,
          [\<lparr>file_attached_to_doctype = Some ''Expense Claim'',
               file_attached_to_name = Some ''EXP-1'', file_attached_to_field = None,
               file_folder = ''Home'', file_file_name = ''bill.pdf'',
               file_content = [37, 80, 68, 70, 45], file_is_private = 1\<rparr>])"
proof -
  note rej = C7_upload_allow_list [of guess_type_ex "''setup.exe''" ALLOWED_MIMETYPES_ex
      "[]" "''aGk=''" None None None,
      THEN conjunct1, THEN mp, OF guess_exe, THEN conjunct2, THEN spec, THEN mp,
      OF b64decode_hi]
  note acc = C7_upload_allow_list [of guess_type_ex "''bill.pdf''" ALLOWED_MIMETYPES_ex
      "[]" "''JVBERi0=''" "Some ''Expense Claim''" "Some ''EXP-1''" None,
      THEN conjunct2, THEN conjunct1, THEN spec, THEN mp,
      OF conjI [OF guess_pdf b64decode_pdf]]
  from rej acc guess_exe guess_pdf b64decode_hi b64decode_pdf show ?thesis
    by simp
qed

text \<open>
  Claim C7 as stated fails: the content \<open>A\<close> is not base64, and the upload of
  \<open>setup.exe\<close> with it ends in the decoder's error, not in the user-facing one.
\<close>

theorem C7_counterexample:
  "guess_type_ex ''setup.exe'' \<notin> set (map Some ALLOWED_MIMETYPES_ex)
   \<and> upload_base64_file guess_type_ex ALLOWED_MIMETYPES_ex [] ''A'' ''setup.exe'' None None None
       = (Inl BinasciiError, [])"
  by (simp add: upload_base64_file_def b64decode_def table_a2b_base64_def
        guess_type_ex_def splitext_def ascii_lower_def suffix_map_def encodings_map_def
        types_map_ex_def ALLOWED_MIMETYPES_ex_def)

text \<open>
  Claim C9. For two contents that both decode, uploaded under the same file name,
  the endpoint rejects both or accepts both, according to the type guessed from the
  file name alone; and a content that does not decode is refused with the decoder's
  error before the type is looked at.
\<close>

theorem C9_decision_depends_on_filename_only:
  assumes "b64decode content1 = Inr bytes1" and "b64decode content2 = Inr bytes2"
  shows "isl (fst (upload_base64_file guess_type allowed tabFile1 content1 filename dt1 dn1 fn1))
         = isl (fst (upload_base64_file guess_type allowed tabFile2 content2 filename dt2 dn2 fn2))
       \<and> (isl (fst (upload_base64_file guess_type allowed tabFile1 content1 filename dt1 dn1 fn1))
            \<longleftrightarrow> guess_type filename \<notin> set (map Some allowed))
       \<and> (\<forall>content err. b64decode content = Inl err \<longrightarrow>
            upload_base64_file guess_type allowed tabFile1 content filename dt1 dn1 fn1
              = (Inl err, tabFile1))"
  using assms
  by (cases "guess_type filename \<in> set (map Some allowed)")
     (simp_all add: upload_base64_file_def Let_def)

text \<open>
  At the example: two different contents are both accepted as \<open>bill.pdf\<close> and both
  refused as \<open>setup.exe\<close>.
\<close>

theorem C9_witness:
  "b64decode ''aGk='' = Inr [104, 105]
   \<and> b64decode ''JVBERi0='' = Inr [37, 80, 68, 70, 45]
   \<and> \<not> isl (fst (upload_base64_file guess_type_ex ALLOWED_MIMETYPES_ex [] ''aGk=''
                     ''bill.pdf'' None None None))
   \<and> \<not> isl (fst (upload_base64_file guess_type_ex ALLOWED_MIMETYPES_ex [] ''JVBERi0=''
                     ''bill.pdf'' None None None))
   \<and> isl (fst (upload_base64_file guess_type_ex ALLOWED_MIMETYPES_ex [] ''aGk=''
                     ''setup.exe'' None None None))
   \<and> isl (fst (upload_base64_file guess_type_ex ALLOWED_MIMETYPES_ex [] ''JVBERi0=''
                     ''setup.exe'' None None None))"
proof -
  note pdf = C9_decision_depends_on_filename_only [OF b64decode_hi b64decode_pdf,
      of guess_type_ex ALLOWED_MIMETYPES_ex "[]" "''bill.pdf''" None None None "[]" None None None]
  note exe = C9_decision_depends_on_filename_only [OF b64decode_hi b64decode_pdf,
      of guess_type_ex ALLOWED_MIMETYPES_ex "[]" "''setup.exe''" None None None "[]" None None None]
  from pdf exe guess_exe guess_pdf b64decode_hi b64decode_pdf show ?thesis
    by blast
qed

section \<open>The limit of get_expense_claims\<close>

lemma claim_group_of_name:
  assumes "n \<in> set (map (\<lambda>(c, x). ec_name c) joined)"
  shows "\<exists>r. claim_group joined n = [r] \<and> cr_name r = n"
proof -
  from assms obtain c x where cx: "(c, x) \<in> set joined" "ec_name c = n" by auto
  then have "filter (\<lambda>(c, x). ec_name c = n) joined \<noteq> []"
    by (auto simp: filter_empty_conv)
  then obtain c' x' rest where f: "filter (\<lambda>(c, x). ec_name c = n) joined = (c', x') # rest"
    by (cases "filter (\<lambda>(c, x). ec_name c = n) joined") auto
  then have "(c', x') \<in> set (filter (\<lambda>(c, x). ec_name c = n) joined)" by simp
  then have "ec_name c' = n" by simp
  with f show ?thesis by (simp add: claim_group_def)
qed

lemma claim_groups_names:
  assumes "set ns \<subseteq> set (map (\<lambda>(c, x). ec_name c) joined)"
  shows "map cr_name (concat (map (claim_group joined) ns)) = ns"
  using assms
proof (induction ns)
  case Nil
  then show ?case by simp
next
  case (Cons n ns)
  then have "n \<in> set (map (\<lambda>(c, x). ec_name c) joined)" by simp
  from claim_group_of_name [OF this] obtain r where "claim_group joined n = [r]" "cr_name r = n"
    by blast
  with Cons show ?case by simp
qed

lemma claim_join_names:
  "set (map (\<lambda>(c, x). ec_name c) (claim_join cd cond)) =
     {ec_name c | c. c \<in> set (tabExpense_Claim cd) \<and> cond c
        \<and> (\<exists>x\<in>set (tabExpense_Claim_Detail cd). ecd_parent x = ec_name c)}"
  by (auto simp: claim_join_def) force

lemma matching_claims_names:
  "set (map cr_name (matching_claims cd employee approver_id for_approval)) =
     {ec_name c | c. c \<in> set (tabExpense_Claim cd)
        \<and> claim_where employee approver_id for_approval c
        \<and> (\<exists>x\<in>set (tabExpense_Claim_Detail cd). ecd_parent x = ec_name c)}"
proof -
  let ?j = "claim_join cd (claim_where employee approver_id for_approval)"
  let ?ns = "remdups (map (\<lambda>(c, x). ec_name c) ?j)"
  have "map cr_name (concat (map (claim_group ?j) ?ns)) = ?ns"
    by (rule claim_groups_names) simp
  then have "set (map cr_name (concat (map (claim_group ?j) ?ns))) = set ?ns" by simp
  then have "set (map cr_name (matching_claims cd employee approver_id for_approval))
             = set (map (\<lambda>(c, x). ec_name c) ?j)"
    by (simp add: matching_claims_def Let_def)
  then show ?thesis unfolding claim_join_names .
qed

text \<open>
  Claim C10. A limit of 0 gives what no limit gives: all matching claims, one row
  for each claim that satisfies the condition and has a detail row. A positive
  limit keeps that many of the first rows.
\<close>

theorem C10_limit_applies_only_when_truthy:
  "get_expense_claims cd employee approver_id for_approval (Some 0)
     = get_expense_claims cd employee approver_id for_approval None
   \<and> get_expense_claims cd employee approver_id for_approval None
       = Inr (matching_claims cd employee approver_id for_approval)
   \<and> set (map cr_name (matching_claims cd employee approver_id for_approval)) =
       {ec_name c | c. c \<in> set (tabExpense_Claim cd)
          \<and> claim_where employee approver_id for_approval c
          \<and> (\<exists>x\<in>set (tabExpense_Claim_Detail cd). ecd_parent x = ec_name c)}
   \<and> (\<forall>n. 0 < n \<longrightarrow>
         get_expense_claims cd employee approver_id for_approval (Some n)
           = Inr (take (nat n) (matching_claims cd employee approver_id for_approval)))"
  by (simp add: get_expense_claims_def Let_def matching_claims_names del: set_map)

text \<open>
  At the example: the three claims of \<open>EMP-1\<close>, latest first, all of them with
  limit 0 and the first two with limit 2.
\<close>

theorem C10_witness:
  "get_expense_claims claims_ex ''EMP-1'' None False (Some 0)
     = get_expense_claims claims_ex ''EMP-1'' None False None
   \<and> map cr_name (matching_claims claims_ex ''EMP-1'' None False)
       = [''EXP-2'', ''EXP-3'', ''EXP-1'']
   \<and> (0::int) < 2
   \<and> get_expense_claims claims_ex ''EMP-1'' None False (Some 2)
       = Inr (take 2 (matching_claims claims_ex ''EMP-1'' None False))"
proof -
  have m: "map cr_name (matching_claims claims_ex ''EMP-1'' None False)
       = [''EXP-2'', ''EXP-3'', ''EXP-1'']"
    by (simp add: matching_claims_def claim_join_def claim_group_def claim_where_def
          claims_ex_def Let_def)
  have two: "nat 2 = 2" by simp
  from C10_limit_applies_only_when_truthy [of claims_ex "''EMP-1''" None False] m
  show ?thesis by (simp only: two) simp
qed

end
